theory Spec2Isabelle
  imports Complex_Main "HOL-Library.Sublist"
begin

section \<open>Values shared by the pipeline\<close>

text \<open>
  The program is Python 2 (\<^verbatim>\<open>nanonet/nanonetcall.py\<close>). A call either returns or raises;
  a raise is the \<open>Inl\<close> of a sum. Only the exceptions that the modelled code can raise
  itself are named; whatever a collaborator (network, decoder, storage) raises is a
  \<open>CollaboratorError\<close>.
\<close>

datatype py_exn =
    IndexError
  | ValueError
  | UnboundLocalError
  | ZeroDivisionError
  | CollaboratorError string

text \<open>
  numpy floats. Rounding is not modelled: a finite float is a real number and finite
  arithmetic is exact. What numpy produces where the real result does not exist is kept:
  a division by zero gives \<open>nan\<close> or an infinity (numpy only warns, and the module
  switches warnings off in line 26) and these values propagate through the later
  arithmetic. Signed zeros are not modelled.
\<close>

datatype npfloat = Fin real | PInf | NInf | NaN

text \<open>\<^verbatim>\<open>x / w\<close> for finite \<open>x\<close> and \<open>w\<close>.\<close>

definition np_div :: "real \<Rightarrow> real \<Rightarrow> npfloat" where
  "np_div x w =
     (if w \<noteq> 0 then Fin (x / w)
      else if x = 0 then NaN
      else if 0 < x then PInf
      else NInf)"

text \<open>\<^verbatim>\<open>c * v\<close> and \<^verbatim>\<open>c + v\<close> for a finite scalar \<open>c\<close>.\<close>

primrec np_mul :: "real \<Rightarrow> npfloat \<Rightarrow> npfloat" where
  "np_mul c (Fin x) = Fin (c * x)"
| "np_mul c PInf = (if 0 < c then PInf else if c < 0 then NInf else NaN)"
| "np_mul c NInf = (if 0 < c then NInf else if c < 0 then PInf else NaN)"
| "np_mul c NaN = NaN"

primrec np_add :: "real \<Rightarrow> npfloat \<Rightarrow> npfloat" where
  "np_add c (Fin x) = Fin (c + x)"
| "np_add c PInf = PInf"
| "np_add c NInf = NInf"
| "np_add c NaN = NaN"

text \<open>
  A two-dimensional array is the list of its rows. The posterior matrix that the
  network returns holds finite floats; the cleaned matrix may hold the special values.
\<close>

type_synonym matrix = "real list list"
type_synonym npmatrix = "npfloat list list"

text \<open>\<^verbatim>\<open>post.shape[1]\<close>: the number of columns (of an array with at least one row).\<close>

definition shape1 :: "matrix \<Rightarrow> nat" where
  "shape1 post = (case post of [] \<Rightarrow> 0 | r # _ \<Rightarrow> length r)"

text \<open>
  \<^verbatim>\<open>np.argmax\<close> along a row: the index of the first occurrence of the maximum. On a row
  without entries numpy raises ValueError; \<open>clean_post\<close> checks for that before it
  calls \<open>argmax\<close>.
\<close>

primrec argmax :: "real list \<Rightarrow> nat" where
  "argmax [] = 0"
| "argmax (x # xs) = (if list_all (\<lambda>y. y \<le> x) xs then 0 else Suc (argmax xs))"

section \<open>clean\_post (lines 163--178)\<close>

text \<open>\<^verbatim>\<open>post[good_events]\<close>: the rows whose mask entry is true.\<close>

definition select_rows :: "'a list \<Rightarrow> bool list \<Rightarrow> 'a list" where
  "select_rows post good_events = map fst (filter snd (zip post good_events))"

text \<open>
  Lines 175--176: \<^verbatim>\<open>weights = np.sum(post, axis=1).reshape((-1,1)); post /= weights\<close>.
  There is no test of the weight: a zero weight divides all the same.
\<close>

definition normalise_row :: "real list \<Rightarrow> npfloat list" where
  "normalise_row r = map (\<lambda>x. np_div x (sum_list r)) r"

text \<open>Line 177: \<^verbatim>\<open>post = min_prob + (1.0 - min_prob) * post\<close>.\<close>

definition floor_row :: "real \<Rightarrow> npfloat list \<Rightarrow> npfloat list" where
  "floor_row min_prob r = map (\<lambda>v. np_add min_prob (np_mul (1 - min_prob) v)) r"

text \<open>
  The function returns the pair \<^verbatim>\<open>(None, None)\<close> (here \<open>Inr None\<close>), the pair
  \<^verbatim>\<open>(post, good_events)\<close>, or raises:
  \<^item> \<^verbatim>\<open>kmers[-1]\<close> on an empty table raises IndexError;
  \<^item> \<^verbatim>\<open>np.argmax\<close> on rows without entries raises ValueError;
  \<^item> \<^verbatim>\<open>good_events\<close> is assigned in the branch of line 166 only, so when the last
    k-mer is not the all-X one, line 178 reads a local variable that was never
    assigned: UnboundLocalError (lines 175--177 run first and raise nothing).
\<close>

definition clean_post ::
    "matrix \<Rightarrow> string list \<Rightarrow> real \<Rightarrow> py_exn + (npmatrix \<times> bool list) option" where
  "clean_post post kmers min_prob =
     (if kmers = [] then Inl IndexError
      else if last kmers = replicate (length (last kmers)) CHR ''X'' then
        (if list_ex (\<lambda>r. r = []) post then Inl ValueError
         else
           (let bad_kmer = shape1 post - 1;
                max_call = map argmax post;
                good_events = map (\<lambda>c. c \<noteq> bad_kmer) max_call;
                post1 = select_rows post good_events;
                post2 = map butlast post1
            in if post2 = [] then Inr None
               else Inr (Some (map (floor_row min_prob) (map normalise_row post2),
                               good_events))))
      else Inl UnboundLocalError)"

text \<open>\<^verbatim>\<open>np.isfinite\<close>, used to state what a division by zero leaves in a row.\<close>

definition isfinite :: "npfloat \<Rightarrow> bool" where
  "isfinite v = (case v of Fin _ \<Rightarrow> True | PInf \<Rightarrow> False | NInf \<Rightarrow> False | NaN \<Rightarrow> False)"

section \<open>Collaborators\<close>

text \<open>
  The event table of a read (a numpy structured array) is a list of rows; the feature
  matrix is a matrix, \<^verbatim>\<open>len(features)\<close> is its number of rows.
\<close>

type_synonym events = "real list list"

text \<open>What feature extraction does with one read.\<close>

datatype extraction = Usable matrix events | Unusable | Faulted py_exn

text \<open>
  Modelled from the spec: \<^verbatim>\<open>make_basecall_input_multi\<close> (module nanonet.features) is not
  among the sources. By sections 4.3 and 6 of the specification it is handed the reads
  of a batch and gives one triple (identifier, FeatureMatrix, events) for each read
  that is usable, in the order of the input, leaving the unusable reads out, so that
  the batch narrows. It is a generator; where the callers consume all of it the
  model is the list of what it yields. The third outcome, a fault that escapes from
  the generator, is there for the \<^verbatim>\<open>except\<close> clauses of the callers.
\<close>

primrec make_basecall_input_multi ::
    "(string \<Rightarrow> extraction) \<Rightarrow> string list \<Rightarrow> py_exn + (string \<times> matrix \<times> events) list" where
  "make_basecall_input_multi ex [] = Inr []"
| "make_basecall_input_multi ex (f # fs) =
     (case ex f of
        Faulted e \<Rightarrow> Inl e
      | Unusable \<Rightarrow> make_basecall_input_multi ex fs
      | Usable x ev \<Rightarrow>
          (case make_basecall_input_multi ex fs of
             Inl e \<Rightarrow> Inl e
           | Inr ys \<Rightarrow> Inr ((f, x, ev) # ys)))"

text \<open>Lines 83--87.\<close>

record ProcessAttr =
  use_opencl :: bool
  vendor :: "string option"
  device_id :: int

text \<open>
  One call of \<open>write_to_file\<close> (lines 181--214), with its arguments in the order of
  the source: fast5, events, section, seq, good\_events, kmer\_path, kmers, post, states.
  The body builds the event table and appends it to the container of the read through
  collaborators that are not among the sources (AddFields, Fast5); the model keeps
  the call, which is the write to the container of \<open>fast5\<close>.
\<close>

datatype fast5_write =
  Write_to_file string events string string "bool list option" "string list" "string list"
    "npmatrix option" "nat list"

text \<open>
  \<^verbatim>\<open>np.log(__ETA__ + trans)\<close> with \<^verbatim>\<open>__ETA__ = 1e-300\<close> (line 32): the logarithm is not
  computed here; the array handed to the profile decoder is kept as the estimate
  \<open>trans\<close> it is the elementwise \<open>log (1e-300 + trans)\<close> of.
\<close>

datatype log_trans = Log_eta "real list"

text \<open>
  The loaded network, the collaborators and the two clocks of one call.
  \<^item> \<open>net_kmers\<close> is \<^verbatim>\<open>network.meta['kmers']\<close>;
  \<^item> \<open>extract_features\<close> is what \<^verbatim>\<open>make_basecall_input_multi\<close> does with one read,
    under the keyword arguments of the run;
  \<^item> \<open>network_run\<close> is \<^verbatim>\<open>network.run(features)\<close>; \<open>network_run_opencl\<close> is what the
    batched \<^verbatim>\<open>network.run(features_list, ctx, queue_list)\<close> gives for one item of the
    batch (section 6 of the specification: a sequence of FeatureMatrix in, a sequence
    of PosteriorMatrix out);
  \<^item> \<open>opencl_setup\<close> is lines 243--253 and gives the maximal work group size;
  \<^item> the decoders take what the code passes to them, which may be \<^verbatim>\<open>None\<close>;
  \<^item> \<open>write_fault\<close> tells whether a call of \<open>write_to_file\<close> raises;
  \<^item> \<open>network_time\<close> and \<open>decode_time\<close> are the two differences \<^verbatim>\<open>now() - t0\<close> that the
    call measures.

  The network is taken as loaded: what \<^verbatim>\<open>np.load(modelfile)\<close> and the lookup of
  \<^verbatim>\<open>network.meta['window']\<close> may raise (lines 119--120 and 227--228) is not part of the
  model, and \<open>kmers_to_sequence\<close> is taken to return for every path.
\<close>

record env =
  net_kmers :: "string list"
  extract_features :: "string \<Rightarrow> extraction"
  network_run :: "matrix \<Rightarrow> py_exn + matrix"
  network_run_opencl :: "matrix \<Rightarrow> py_exn + matrix"
  opencl_setup :: "ProcessAttr \<Rightarrow> py_exn + nat"
  decode_homogenous :: "npmatrix option \<Rightarrow> py_exn + real \<times> nat list"
  fast_estimate_transitions :: "npmatrix option \<Rightarrow> real list option \<Rightarrow> py_exn + real list"
  decode_profile :: "npmatrix option \<Rightarrow> log_trans \<Rightarrow> py_exn + real \<times> nat list"
  decode_profile_opencl :: "nat \<Rightarrow> npmatrix option \<Rightarrow> log_trans \<Rightarrow> py_exn + real \<times> nat list"
  kmers_to_sequence :: "string list \<Rightarrow> string"
  write_fault :: "fast5_write \<Rightarrow> py_exn option"
  network_time :: real
  decode_time :: real

text \<open>A list comprehension over a call that may raise: the first raise ends it.\<close>

primrec map_exn :: "('a \<Rightarrow> py_exn + 'b) \<Rightarrow> 'a list \<Rightarrow> py_exn + 'b list" where
  "map_exn f [] = Inr []"
| "map_exn f (x # xs) =
     (case f x of
        Inl e \<Rightarrow> Inl e
      | Inr y \<Rightarrow> (case map_exn f xs of Inl e \<Rightarrow> Inl e | Inr ys \<Rightarrow> Inr (y # ys)))"

text \<open>\<^verbatim>\<open>[kmers[i] for i in states]\<close>: an index past the table raises IndexError.\<close>

definition kmer_path_of :: "string list \<Rightarrow> nat list \<Rightarrow> py_exn + string list" where
  "kmer_path_of kmers states =
     (if list_all (\<lambda>i. i < length kmers) states then Inr (map (\<lambda>i. kmers ! i) states)
      else Inl IndexError)"

text \<open>The writes of a loop over \<open>write_to_file\<close>: they stop at the first that raises.\<close>

primrec write_all ::
    "(fast5_write \<Rightarrow> py_exn option) \<Rightarrow> fast5_write list \<Rightarrow> fast5_write list \<times> py_exn option" where
  "write_all fault [] = ([], None)"
| "write_all fault (w # ws) =
     (case fault w of
        Some e \<Rightarrow> ([w], Some e)
      | None \<Rightarrow> (case write_all fault ws of (done_ws, r) \<Rightarrow> (w # done_ws, r)))"

section \<open>process\_read (lines 109--160)\<close>

text \<open>
  What the function returns: \<^verbatim>\<open>None\<close>, the posterior matrix (with \<open>post_only\<close>), or the
  pair of \<^verbatim>\<open>(fname, seq, score, len(features))\<close> and \<^verbatim>\<open>(network_time, decode_time)\<close>.
\<close>

type_synonym work_result = "(string \<times> string \<times> real \<times> nat) \<times> (real \<times> real)"

datatype read_result = RNone | RPost npmatrix | RTuple work_result

text \<open>
  Lines 142--149. The argument \<^verbatim>\<open>trans\<close> of the source is \<open>trans_prior\<close> here, and the
  estimate that line 147 assigns to the same name is \<open>trans_est\<close>.
\<close>

definition decode_kmers ::
    "env \<Rightarrow> bool \<Rightarrow> npmatrix option \<Rightarrow> real list option \<Rightarrow> py_exn + real \<times> nat list" where
  "decode_kmers env fast_decode post trans_prior =
     (if fast_decode then decode_homogenous env post
      else
        (case fast_estimate_transitions env post trans_prior of
           Inl e \<Rightarrow> Inl e
         | Inr trans_est \<Rightarrow> decode_profile env post (Log_eta trans_est)))"

text \<open>
  The result is the list of the writes to containers that the call made, and what it
  returned or raised. The only handler is the one around feature extraction (lines
  123--130): it turns every exception, and the StopIteration of a generator that
  yields nothing, into \<^verbatim>\<open>return None\<close>. After \<open>clean_post\<close> there is no test for
  \<^verbatim>\<open>None\<close>: with \<open>post_only\<close> the function returns what \<open>clean_post\<close> gave as matrix,
  otherwise it hands it to the decoder.
\<close>

definition process_read ::
    "env \<Rightarrow> string \<Rightarrow> real \<Rightarrow> real list option \<Rightarrow> bool \<Rightarrow> bool \<Rightarrow> bool \<Rightarrow> string
      \<Rightarrow> fast5_write list \<times> (py_exn + read_result)" where
  "process_read env fast5 min_prob trans_prior post_only write_events fast_decode read_section =
     (case make_basecall_input_multi (extract_features env) [fast5] of
        Inl e \<Rightarrow> ([], Inr RNone)
      | Inr [] \<Rightarrow> ([], Inr RNone)
      | Inr ((fname, features, events) # _) \<Rightarrow>
          (case network_run env features of
             Inl e \<Rightarrow> ([], Inl e)
           | Inr post0 \<Rightarrow>
               (case clean_post post0 (net_kmers env) min_prob of
                  Inl e \<Rightarrow> ([], Inl e)
                | Inr cleaned \<Rightarrow>
                    (let post = map_option fst cleaned;
                         good_events = map_option snd cleaned
                     in if post_only then
                          ([], Inr (case post of None \<Rightarrow> RNone | Some m \<Rightarrow> RPost m))
                        else
                          (case decode_kmers env fast_decode post trans_prior of
                             Inl e \<Rightarrow> ([], Inl e)
                           | Inr (score, states) \<Rightarrow>
                               (let kmers = net_kmers env in
                                case kmer_path_of kmers states of
                                  Inl e \<Rightarrow> ([], Inl e)
                                | Inr kmer_path \<Rightarrow>
                                    (let seq = kmers_to_sequence env kmer_path;
                                         ret = RTuple ((fname, seq, score, length features),
                                                       (network_time env, decode_time env))
                                     in if write_events then
                                          (let w = Write_to_file fast5 events read_section seq
                                                     good_events kmer_path kmers post states
                                           in case write_fault env w of
                                                Some e \<Rightarrow> ([w], Inl e)
                                              | None \<Rightarrow> ([w], Inr ret))
                                        else ([], Inr ret))))))))"

section \<open>process\_read\_opencl (lines 217--310)\<close>

text \<open>
  Lines 265--281. With \<open>fast_decode\<close> each item is decoded by the decoder of the CPU
  path. Otherwise the transitions of every item are estimated first and
  \<^verbatim>\<open>decode_profile_opencl\<close> decodes the batch; \<open>decode_profile_opencl\<close> of the
  environment is what that call gives for one item.
\<close>

definition decode_kmers_opencl ::
    "env \<Rightarrow> nat \<Rightarrow> bool \<Rightarrow> npmatrix option list \<Rightarrow> real list option
      \<Rightarrow> py_exn + (real \<times> nat list) list" where
  "decode_kmers_opencl env max_workgroup_size fast_decode post_list trans_prior =
     (if fast_decode then map_exn (decode_homogenous env) post_list
      else
        (case map_exn (\<lambda>post. case fast_estimate_transitions env post trans_prior of
                               Inl e \<Rightarrow> Inl e
                             | Inr trans_est \<Rightarrow> Inr (Log_eta trans_est)) post_list of
           Inl e \<Rightarrow> Inl e
         | Inr trans_list \<Rightarrow>
             map_exn (\<lambda>(post, tr). decode_profile_opencl env max_workgroup_size post tr)
               (zip post_list trans_list)))"

text \<open>
  Lines 231--236: unpacking \<^verbatim>\<open>zip(*...)\<close> of a generator that yielded nothing into three
  names raises ValueError, which the bare \<^verbatim>\<open>except\<close> catches like a fault of the
  generator: the result is \<^verbatim>\<open>[None] * len(fast5_list)\<close>. From line 237 on nothing is
  caught. Lines 303--310: the results of the \<open>n_files\<close> reads that feature extraction
  kept come first, and the markers \<^verbatim>\<open>None\<close> are appended after them.
\<close>

definition process_read_opencl ::
    "env \<Rightarrow> ProcessAttr \<Rightarrow> string list \<Rightarrow> real \<Rightarrow> real list option \<Rightarrow> bool \<Rightarrow> bool \<Rightarrow> string
      \<Rightarrow> fast5_write list \<times> (py_exn + work_result option list)" where
  "process_read_opencl env pa fast5_list min_prob trans_prior write_events fast_decode read_section =
     (case make_basecall_input_multi (extract_features env) fast5_list of
        Inl e \<Rightarrow> ([], Inr (replicate (length fast5_list) None))
      | Inr [] \<Rightarrow> ([], Inr (replicate (length fast5_list) None))
      | Inr (item # items) \<Rightarrow>
          (let file_list = map fst (item # items);
               features_list = map (\<lambda>x. fst (snd x)) (item # items);
               events_list = map (\<lambda>x. snd (snd x)) (item # items);
               n_files = length file_list
           in case opencl_setup env pa of
                Inl e \<Rightarrow> ([], Inl e)
              | Inr max_workgroup_size \<Rightarrow>
           (case map_exn (network_run_opencl env) features_list of
                Inl e \<Rightarrow> ([], Inl e)
              | Inr post_list0 \<Rightarrow>
           (let network_time_list = replicate n_files (network_time env / real n_files)
            in case map_exn (\<lambda>post. clean_post post (net_kmers env) min_prob) post_list0 of
                Inl e \<Rightarrow> ([], Inl e)
              | Inr cleaned \<Rightarrow>
           (let post_list = map (map_option fst) cleaned;
                good_events_list = map (map_option snd) cleaned
            in case decode_kmers_opencl env max_workgroup_size fast_decode post_list trans_prior of
                Inl e \<Rightarrow> ([], Inl e)
              | Inr decoded \<Rightarrow>
           (let score_list = map fst decoded;
                states_list = map snd decoded;
                decode_time_list = replicate n_files (decode_time env / real n_files);
                kmers = net_kmers env
            in case map_exn (kmer_path_of kmers) states_list of
                Inl e \<Rightarrow> ([], Inl e)
              | Inr kmer_path_list \<Rightarrow>
           (let seq_list = map (kmers_to_sequence env) kmer_path_list;
                data = zip file_list (zip seq_list (zip score_list (map length features_list)));
                timings = zip network_time_list decode_time_list;
                ret = map Some (zip data timings)
                        @ (if n_files < length fast5_list
                           then replicate (length fast5_list - n_files) None else [])
            in if write_events then
                 (case write_all (write_fault env)
                         (map (\<lambda>(f, ev, sq, g, kp, p, st).
                                 Write_to_file f ev read_section sq g kp kmers p st)
                            (zip file_list (zip events_list (zip seq_list (zip good_events_list
                               (zip kmer_path_list (zip post_list states_list))))))) of
                    (ws, Some e) \<Rightarrow> (ws, Inl e)
                  | (ws, None) \<Rightarrow> (ws, Inr ret))
               else ([], Inr ret))))))))"

text \<open>
  What lines 255--301 do with one read of the narrowed batch, an item (identifier,
  features, events) that feature extraction delivered, when the batch has \<open>n_files\<close>
  such reads and the device has the work group size \<open>max_workgroup_size\<close>: the network,
  \<open>clean_post\<close>, the decoder, the path of k-mers, the sequence, the write when
  \<open>write_events\<close> is set, and the result with the two times of the batch divided by
  \<open>n_files\<close>. The batch runs each of these steps over all its reads before the next
  step, so which exception a batch raises is not read off this function; the function
  serves to state what the batch returns, and when
  (\<open>process_read_opencl_returns_iff\<close> below).
\<close>

definition decode_kmers_item ::
    "env \<Rightarrow> nat \<Rightarrow> bool \<Rightarrow> real list option \<Rightarrow> npmatrix option \<Rightarrow> py_exn + real \<times> nat list" where
  "decode_kmers_item env max_workgroup_size fast_decode trans_prior post =
     (if fast_decode then decode_homogenous env post
      else
        (case fast_estimate_transitions env post trans_prior of
           Inl e \<Rightarrow> Inl e
         | Inr trans_est \<Rightarrow>
             decode_profile_opencl env max_workgroup_size post (Log_eta trans_est)))"

definition batch_item ::
    "env \<Rightarrow> nat \<Rightarrow> real \<Rightarrow> real list option \<Rightarrow> bool \<Rightarrow> bool \<Rightarrow> string \<Rightarrow> nat
      \<Rightarrow> string \<times> matrix \<times> events \<Rightarrow> py_exn + work_result" where
  "batch_item env max_workgroup_size min_prob trans_prior write_events fast_decode read_section
       n_files item =
     (case network_run_opencl env (fst (snd item)) of
        Inl e \<Rightarrow> Inl e
      | Inr post0 \<Rightarrow>
     (case clean_post post0 (net_kmers env) min_prob of
        Inl e \<Rightarrow> Inl e
      | Inr cleaned \<Rightarrow>
     (case decode_kmers_item env max_workgroup_size fast_decode trans_prior
             (map_option fst cleaned) of
        Inl e \<Rightarrow> Inl e
      | Inr decoded \<Rightarrow>
     (case kmer_path_of (net_kmers env) (snd decoded) of
        Inl e \<Rightarrow> Inl e
      | Inr kmer_path \<Rightarrow>
     (case (if write_events then
              write_fault env
                (Write_to_file (fst item) (snd (snd item)) read_section
                   (kmers_to_sequence env kmer_path) (map_option snd cleaned) kmer_path
                   (net_kmers env) (map_option fst cleaned) (snd decoded))
            else None) of
        Some e \<Rightarrow> Inl e
      | None \<Rightarrow>
          Inr ((fst item, kmers_to_sequence env kmer_path, fst decoded,
                length (fst (snd item))),
               (network_time env / real n_files, decode_time env / real n_files)))))))"

section \<open>main (lines 313--407)\<close>

subsection \<open>The workers and the way the load is spread (lines 349--381)\<close>

text \<open>
  The arguments that this part reads. \<^verbatim>\<open>--platforms\<close> has \<^verbatim>\<open>nargs="+"\<close>: it is absent
  (\<^verbatim>\<open>None\<close>) or a list with a first descriptor. A descriptor \<^verbatim>\<open>VENDOR:DEVICE:N_Files\<close>
  is the triple that lines 355--356 split it into; a descriptor that does not split
  into three fields, or whose numbers do not parse, ends the program in line 355 or
  356, before any choice is made, and has no place in this type.
\<close>

type_synonym platform = "string \<times> int \<times> int"

record args =
  exc_opencl :: bool
  jobs :: int
  platforms :: "(platform \<times> platform list) option"
  fast_decode_arg :: bool
  write_events_arg :: bool
  section_arg :: string

datatype worker_function = Cpu_function | Opencl_function ProcessAttr

text \<open>Lines 349--361. \<^verbatim>\<open>[x] * n\<close> is the empty list for \<open>n \<le> 0\<close>.\<close>

definition workers :: "args \<Rightarrow> (worker_function \<times> int option) list" where
  "workers a =
     (if \<not> exc_opencl a then replicate (nat (jobs a)) (Cpu_function, None) else [])
     @ (case platforms a of
          None \<Rightarrow> []
        | Some (p, ps) \<Rightarrow>
            map (\<lambda>(vendor_str, device, n_files).
                   (Opencl_function \<lparr>use_opencl = True, vendor = Some vendor_str, device_id = device\<rparr>,
                    Some n_files))
              (p # ps))"

datatype strategy = CpuOnly | SingleDevice | Heterogeneous

text \<open>The tests of lines 369, 373 and 379.\<close>

definition select_strategy :: "args \<Rightarrow> strategy" where
  "select_strategy a =
     (if platforms a = None then CpuOnly
      else if length (workers a) = 1 then SingleDevice
      else Heterogeneous)"

text \<open>
  Lines 371 and 376: \<^verbatim>\<open>worker, n_files = workers[0]\<close> in the first two branches; on an
  empty list of workers it raises IndexError. The third branch hands all workers to
  the job queue.
\<close>

definition select_workers ::
    "args \<Rightarrow> py_exn + strategy \<times> (worker_function \<times> int option) list" where
  "select_workers a =
     (case select_strategy a of
        CpuOnly \<Rightarrow> (case workers a of [] \<Rightarrow> Inl IndexError | w # _ \<Rightarrow> Inr (CpuOnly, [w]))
      | SingleDevice \<Rightarrow>
          (case workers a of [] \<Rightarrow> Inl IndexError | w # _ \<Rightarrow> Inr (SingleDevice, [w]))
      | Heterogeneous \<Rightarrow> Inr (Heterogeneous, workers a))"

text \<open>
  The words of the specification (section 4.4), to compare \<open>select_strategy\<close> with: the
  number of configured devices and of CPU workers, counted in the list of workers, and
  the topology that the specification gives for them.
\<close>

definition n_devices :: "args \<Rightarrow> nat" where
  "n_devices a = length (filter (\<lambda>w. fst w \<noteq> Cpu_function) (workers a))"

definition n_cpu_workers :: "args \<Rightarrow> nat" where
  "n_cpu_workers a = length (filter (\<lambda>w. fst w = Cpu_function) (workers a))"

definition spec_strategy :: "nat \<Rightarrow> nat \<Rightarrow> strategy" where
  "spec_strategy devices cpus =
     (if devices = 0 then CpuOnly
      else if devices = 1 \<and> cpus = 0 then SingleDevice
      else Heterogeneous)"

subsection \<open>The single device (lines 373--378)\<close>

text \<open>
  Modelled from the spec: \<^verbatim>\<open>group_by_list\<close> (module nanonet.util) is not among the
  sources. By section 4.4 of the specification the input stream is grouped into chunks
  of a fixed size, the capacity of the device, and the last chunk may be short. The
  specification says nothing of a capacity that is not positive; no chunk is formed
  then.
\<close>

function group_by_list :: "'a list \<Rightarrow> int \<Rightarrow> 'a list list" where
  "group_by_list xs n =
     (if n \<le> 0 \<or> xs = [] then []
      else take (nat n) xs # group_by_list (drop (nat n) xs) n)"
  by pat_completeness auto
termination
  by (relation "measure (\<lambda>(xs, n). length xs)") auto

declare group_by_list.simps [simp del]

text \<open>
  \<^verbatim>\<open>itertools.chain.from_iterable(itertools.imap(worker, fast5_files))\<close>: the results of
  the chunks one after the other. The stream is lazy: when the worker raises on a
  chunk, the results of the chunks before it have been yielded. The result is the
  writes made, the results yielded, and the exception that ended the stream, if any.
\<close>

primrec chain_imap ::
    "('c \<Rightarrow> fast5_write list \<times> (py_exn + 'r list)) \<Rightarrow> 'c list
      \<Rightarrow> fast5_write list \<times> 'r list \<times> py_exn option" where
  "chain_imap worker [] = ([], [], None)"
| "chain_imap worker (c # cs) =
     (case worker c of
        (ws, Inl e) \<Rightarrow> (ws, [], Some e)
      | (ws, Inr rs) \<Rightarrow>
          (case chain_imap worker cs of (ws', rs', r) \<Rightarrow> (ws @ ws', rs @ rs', r)))"

text \<open>
  Lines 358 and 376--378: the worker is \<open>process_read_opencl\<close> with the model, the
  device and the keyword arguments of line 343 fixed; \<open>min_prob\<close> and \<open>trans\<close> keep the
  defaults of line 217.
\<close>

definition single_device_mapper ::
    "env \<Rightarrow> ProcessAttr \<Rightarrow> int \<Rightarrow> bool \<Rightarrow> bool \<Rightarrow> string \<Rightarrow> string list
      \<Rightarrow> fast5_write list \<times> work_result option list \<times> py_exn option" where
  "single_device_mapper env pa n_files write_events fast_decode read_section fast5_files =
     chain_imap
       (\<lambda>chunk. process_read_opencl env pa chunk (1 / 100000) None write_events fast_decode read_section)
       (group_by_list fast5_files n_files)"

subsection \<open>The results (lines 363--407)\<close>

text \<open>The counters of lines 363--366 and the records written to the fasta output.\<close>

record totals =
  n_reads :: nat
  n_bases :: nat
  n_events :: nat
  timings :: "real \<times> real"
  fasta :: "(string \<times> string) list"

definition totals0 :: totals where
  "totals0 = \<lparr>n_reads = 0, n_bases = 0, n_events = 0, timings = (0, 0), fasta = []\<rparr>"

text \<open>
  The body of the loop, lines 386--395. \<open>short_names\<close> (module nanonet.fast5) is not
  among the sources and is an argument.
\<close>

definition consume :: "(string \<Rightarrow> string \<times> string) \<Rightarrow> totals \<Rightarrow> work_result option \<Rightarrow> totals" where
  "consume short_names t result =
     (case result of
        None \<Rightarrow> t
      | Some ((fname, basecall, score, n_ev), (t_network, t_decode)) \<Rightarrow>
          t\<lparr>fasta := fasta t @ [(fst (short_names fname), basecall)],
            n_reads := n_reads t + 1,
            n_bases := n_bases t + length basecall,
            n_events := n_events t + n_ev,
            timings := (fst (timings t) + t_network, snd (timings t) + t_decode)\<rparr>)"

definition aggregate :: "(string \<Rightarrow> string \<times> string) \<Rightarrow> work_result option list \<Rightarrow> totals" where
  "aggregate short_names results = foldl (consume short_names) totals0 results"

text \<open>
  Lines 398--407: the six numbers of the two rate lines, written when a read was
  called. A float division by zero raises ZeroDivisionError in Python.
\<close>

definition throughput :: "totals \<Rightarrow> py_exn + (real \<times> real \<times> real \<times> real \<times> real \<times> real) option" where
  "throughput t =
     (if 0 < n_reads t then
        (let network = fst (timings t); decoding = snd (timings t)
         in if network = 0 then Inl ZeroDivisionError
            else if decoding = 0 then Inl ZeroDivisionError
            else Inr (Some (network,
                            real (n_bases t) / 1000 / network,
                            real (n_events t) / 1000 / network,
                            decoding,
                            real (n_bases t) / 1000 / decoding,
                            real (n_events t) / 1000 / decoding)))
      else Inr None)"

text \<open>The results that are not \<^verbatim>\<open>None\<close>, in their order.\<close>

definition successes :: "'r option list \<Rightarrow> 'r list" where
  "successes results = List.map_filter (\<lambda>r. r) results"

text \<open>The reads that feature extraction keeps.\<close>

definition usable :: "env \<Rightarrow> string \<Rightarrow> bool" where
  "usable env f = (case extract_features env f of Usable _ _ \<Rightarrow> True | Unusable \<Rightarrow> False | Faulted _ \<Rightarrow> False)"

text \<open>The reads on which feature extraction raises.\<close>

definition faulted :: "env \<Rightarrow> string \<Rightarrow> bool" where
  "faulted env f = (case extract_features env f of Usable _ _ \<Rightarrow> False | Unusable \<Rightarrow> False | Faulted _ \<Rightarrow> True)"

section \<open>A small run\<close>

text \<open>
  An environment to run the definitions on: a table of two 3-mers and the all-X one;
  the read \<open>B\<close> is unusable and every other read has one event; the network gives
  every read a posterior of one row; the decoders take the first state for every row
  and raise on \<^verbatim>\<open>None\<close>; the sequence of a path is its first k-mer followed by the last
  base of each later one; no write fails; the network phase took 3 seconds and the
  decoding phase 6.
\<close>

definition example_env :: env where
  "example_env =
     \<lparr>net_kmers = [''AAA'', ''AAC'', ''XXX''],
      extract_features = (\<lambda>f. if f = ''B'' then Unusable else Usable [[1]] [[0]]),
      network_run = (\<lambda>x. Inr [[1 / 2, 1 / 2, 0]]),
      network_run_opencl = (\<lambda>x. Inr [[1 / 2, 1 / 2, 0]]),
      opencl_setup = (\<lambda>pa. Inr 256),
      decode_homogenous =
        (\<lambda>p. case p of None \<Rightarrow> Inl (CollaboratorError ''TypeError'')
                       | Some m \<Rightarrow> Inr (0, map (\<lambda>r. 0) m)),
      fast_estimate_transitions =
        (\<lambda>p t. case p of None \<Rightarrow> Inl (CollaboratorError ''TypeError'')
                         | Some m \<Rightarrow> Inr [1 / 10, 8 / 10, 1 / 10]),
      decode_profile =
        (\<lambda>p t. case p of None \<Rightarrow> Inl (CollaboratorError ''TypeError'')
                         | Some m \<Rightarrow> Inr (0, map (\<lambda>r. 0) m)),
      decode_profile_opencl =
        (\<lambda>n p t. case p of None \<Rightarrow> Inl (CollaboratorError ''TypeError'')
                           | Some m \<Rightarrow> Inr (0, map (\<lambda>r. 0) m)),
      kmers_to_sequence = (\<lambda>kp. case kp of [] \<Rightarrow> [] | k # ks \<Rightarrow> k @ map last ks),
      write_fault = (\<lambda>w. None),
      network_time = 3,
      decode_time = 6\<rparr>"

definition example_pa :: ProcessAttr where
  "example_pa = \<lparr>use_opencl = True, vendor = Some ''nvidia'', device_id = 0\<rparr>"

section \<open>Facts about clean\_post\<close>

lemma select_rows_map: "select_rows post (map f post) = filter f post"
  by (induction post) (simp_all add: select_rows_def)

lemma argmax_less: "xs \<noteq> [] \<Longrightarrow> argmax xs < length xs"
proof (induction xs)
  case Nil
  then show ?case by simp
next
  case (Cons x xs)
  show ?case
  proof (cases "list_all (\<lambda>z. z \<le> x) xs")
    case True
    then show ?thesis by simp
  next
    case False
    then have "xs \<noteq> []" by auto
    with Cons.IH False show ?thesis by simp
  qed
qed

lemma argmax_greatest: "y \<in> set xs \<Longrightarrow> y \<le> xs ! argmax xs"
proof (induction xs arbitrary: y)
  case Nil
  then show ?case by simp
next
  case (Cons x xs)
  show ?case
  proof (cases "list_all (\<lambda>z. z \<le> x) xs")
    case True
    with Cons.prems show ?thesis by (auto simp: list_all_iff)
  next
    case False
    then obtain z where z: "z \<in> set xs" "x < z" by (auto simp: list_all_iff)
    from Cons.IH [OF z(1)] z(2) have "x \<le> xs ! argmax xs" by simp
    moreover have "y \<in> set xs \<Longrightarrow> y \<le> xs ! argmax xs" by (rule Cons.IH)
    ultimately show ?thesis using False Cons.prems by auto
  qed
qed

lemma sum_list_affine:
  "sum_list (map (\<lambda>x. a + b * x) xs) = real (length xs) * a + b * sum_list (xs :: real list)"
  by (induction xs) (simp_all add: algebra_simps)

lemma normalise_row_finite:
  "sum_list r \<noteq> 0 \<Longrightarrow> normalise_row r = map (\<lambda>x. Fin (x / sum_list r)) r"
  by (simp add: normalise_row_def np_div_def)

lemma floor_row_finite:
  "floor_row e (map Fin xs) = map (\<lambda>x. Fin (e + (1 - e) * x)) xs"
  by (simp add: floor_row_def)

lemma clean_post_sentinel:
  assumes "kmers \<noteq> []" "last kmers = replicate (length (last kmers)) CHR ''X''"
      and "\<not> list_ex (\<lambda>r. r = []) post"
  shows "clean_post post kmers e =
     (let kept = filter (\<lambda>r. argmax r \<noteq> shape1 post - 1) post in
      if kept = [] then Inr None
      else Inr (Some (map (\<lambda>r. floor_row e (normalise_row (butlast r))) kept,
                      map (\<lambda>r. argmax r \<noteq> shape1 post - 1) post)))"
proof -
  have "map (\<lambda>c. c \<noteq> shape1 post - 1) (map argmax post) = map (\<lambda>r. argmax r \<noteq> shape1 post - 1) post"
    by simp
  then show ?thesis using assms
    by (simp add: clean_post_def Let_def select_rows_map comp_def)
qed

lemma clean_post_Some_sentinel:
  "clean_post post kmers e = Inr x \<Longrightarrow>
     kmers \<noteq> [] \<and> last kmers = replicate (length (last kmers)) CHR ''X'' \<and> \<not> list_ex (\<lambda>r. r = []) post"
  by (auto simp: clean_post_def split: if_splits)

lemma kept_row_positive:
  assumes r: "list_all (\<lambda>x. 0 \<le> x) r" "list_ex (\<lambda>x. 0 < x) r"
      and a: "argmax r \<noteq> length r - 1"
  shows "0 < sum_list (butlast r)"
proof -
  from r(2) obtain x where x: "x \<in> set r" "0 < x" by (auto simp: list_ex_iff)
  then have ne: "r \<noteq> []" by auto
  from argmax_less [OF ne] a have lt: "argmax r < length (butlast r)" by simp
  then have mem: "butlast r ! argmax r \<in> set (butlast r)" by (rule nth_mem)
  have "butlast r ! argmax r = r ! argmax r" using lt by (simp add: nth_butlast)
  with argmax_greatest [OF x(1)] x(2) have pos: "0 < butlast r ! argmax r" by simp
  have nn: "\<And>y. y \<in> set (butlast r) \<Longrightarrow> 0 \<le> y"
    using r(1) by (auto simp: list_all_iff dest: in_set_butlastD)
  have "butlast r ! argmax r \<le> sum_list (butlast r)"
    using mem nn by (simp add: member_le_sum_list)
  with pos show ?thesis by simp
qed

text \<open>The posterior of the small run, cleaned with the default floor.\<close>

lemma clean_post_example:
  "clean_post [[1 / 2, 1 / 2, 0]] [''AAA'', ''AAC'', ''XXX''] (1 / 100000)
     = Inr (Some ([[Fin (100001 / 200000), Fin (100001 / 200000)]], [True]))"
  by (simp add: clean_post_def shape1_def select_rows_def normalise_row_def floor_row_def
        np_div_def)

text \<open>
  C3 (as amended). Exact arithmetic. Let the cleaner return a matrix, for a posterior
  that is rectangular, has no negative entry and no row of zeros, and a floor
  \<open>min_prob\<close> between 0 and 1. Then every row of the cleaned matrix is finite, has one
  entry for each class but the all-X one, has no entry below \<open>min_prob\<close>, and sums to
  \<open>1 + (K - 1) * min_prob\<close>, where \<open>K\<close> is the number of its entries. The floor
  transform of line 177 adds \<open>min_prob\<close> to each of the \<open>K\<close> entries of a row that line
  176 made sum to 1, and scales that row by \<open>1 - min_prob\<close>: the sum is 1 only for
  \<open>K = 1\<close> or \<open>min_prob = 0\<close>.
\<close>

theorem clean_post_row_sum_and_floor:
  assumes c: "clean_post post kmers min_prob = Inr (Some (m, good_events))"
      and rect: "\<forall>r\<in>set post. length r = shape1 post"
      and nn: "\<forall>r\<in>set post. list_all (\<lambda>x. 0 \<le> x) r \<and> list_ex (\<lambda>x. 0 < x) r"
      and e: "0 \<le> min_prob" "min_prob \<le> 1"
      and row: "row \<in> set m"
  shows "\<exists>xs. row = map Fin xs \<and> length xs = shape1 post - 1
            \<and> list_all (\<lambda>x. min_prob \<le> x) xs
            \<and> sum_list xs = 1 + (real (length xs) - 1) * min_prob"
proof -
  from clean_post_Some_sentinel [OF c] have s: "kmers \<noteq> []"
    "last kmers = replicate (length (last kmers)) CHR ''X''" "\<not> list_ex (\<lambda>r. r = []) post"
    by simp_all
  from c row obtain r where r: "r \<in> set post" "argmax r \<noteq> shape1 post - 1"
      and row_eq: "row = floor_row min_prob (normalise_row (butlast r))"
    unfolding clean_post_sentinel [OF s] by (auto simp: Let_def split: if_splits)
  from rect r have len: "length r = shape1 post" "argmax r \<noteq> length r - 1" by simp_all
  from nn r(1) have "list_all (\<lambda>x. 0 \<le> x) r" "list_ex (\<lambda>x. 0 < x) r" by simp_all
  then have pos: "0 < sum_list (butlast r)" using len(2) by (rule kept_row_positive)
  define s where "s = sum_list (butlast r)"
  define xs where "xs = map (\<lambda>x. min_prob + (1 - min_prob) * (x / s)) (butlast r)"
  have nnb: "\<And>y. y \<in> set (butlast r) \<Longrightarrow> 0 \<le> y"
    using \<open>list_all (\<lambda>x. 0 \<le> x) r\<close> by (auto simp: list_all_iff dest: in_set_butlastD)
  have "row = map Fin xs"
    using pos by (simp add: row_eq normalise_row_finite floor_row_def xs_def s_def comp_def)
  moreover have "length xs = shape1 post - 1" by (simp add: xs_def len(1))
  moreover have "list_all (\<lambda>x. min_prob \<le> x) xs"
    using e pos nnb by (auto simp: xs_def list_all_iff s_def)
  moreover have "sum_list xs = 1 + (real (length xs) - 1) * min_prob"
  proof -
    have "sum_list xs = sum_list (map (\<lambda>x. min_prob + ((1 - min_prob) / s) * x) (butlast r))"
      by (simp add: xs_def)
    also have "\<dots> = real (length (butlast r)) * min_prob + ((1 - min_prob) / s) * s"
      unfolding sum_list_affine by (simp add: s_def)
    also have "((1 - min_prob) / s) * s = 1 - min_prob"
      using pos by (simp add: s_def)
    also have "real (length (butlast r)) * min_prob + (1 - min_prob)
                 = 1 + (real (length xs) - 1) * min_prob"
      by (simp add: xs_def algebra_simps)
    finally show ?thesis .
  qed
  ultimately show ?thesis by blast
qed

text \<open>
  C3, at one row of three classes with the default floor \<open>1e-5\<close>: the theorem gives the
  row of the two entries \<open>0.500005\<close>.
\<close>

theorem clean_post_row_sum_and_floor_witness:
  "\<exists>xs. [Fin (100001 / 200000), Fin (100001 / 200000)] = map Fin xs \<and> length xs = 2
       \<and> list_all (\<lambda>x. 1 / 100000 \<le> x) xs
       \<and> sum_list xs = 1 + (real (length xs) - 1) * (1 / 100000)"
  using clean_post_row_sum_and_floor [OF clean_post_example,
          of "[Fin (100001 / 200000), Fin (100001 / 200000)]"]
  by (simp add: shape1_def numeral_2_eq_2)

text \<open>
  C3 as it is stated fails: the posterior row \<open>(0.5, 0.5, 0)\<close> is cleaned with the default
  floor to a row that sums to \<open>1.00001\<close>, which is not within \<open>1e-6\<close> of 1. (The inputs
  and the normalised row are exact in binary floating point, and the rounding of the
  floor transform is far below the excess of \<open>1e-5\<close>.)
\<close>

theorem clean_post_row_sum_counterexample:
  "clean_post [[1/2, 1/2, 0]] [''AAA'', ''AAC'', ''XXX''] (1 / 100000)
     = Inr (Some ([[Fin (100001 / 200000), Fin (100001 / 200000)]], [True]))
   \<and> \<not> \<bar>sum_list [100001 / 200000, 100001 / 200000] - (1::real)\<bar> \<le> 1 / 1000000"
  by (simp add: clean_post_def shape1_def select_rows_def normalise_row_def floor_row_def np_div_def)


lemma clean_post_no_sentinel:
  "kmers \<noteq> [] \<Longrightarrow> last kmers \<noteq> replicate (length (last kmers)) CHR ''X''
     \<Longrightarrow> clean_post post kmers min_prob = Inl UnboundLocalError"
  by (simp add: clean_post_def)

text \<open>
  C4. The claim is that a table whose last class is not the all-X one gives the cleaned
  matrix with a mask that is true everywhere. The code raises UnboundLocalError there:
  for every such table by \<open>clean_post_no_sentinel\<close>, and here for one row over the
  table of the two classes AA and AC.
\<close>

theorem clean_post_no_sentinel_unbound:
  "clean_post [[1 / 2, 1 / 2]] [''AA'', ''AC''] (1 / 100000) = Inl UnboundLocalError"
  by (simp add: clean_post_def)

lemma floor_div_zero:
  "np_add e (np_mul (1 - e) (np_div x 0))
     = (if x = 0 \<or> e = 1 then NaN else if (0 < x) = (e < 1) then PInf else NInf)"
  by (simp add: np_div_def)

lemma floor_normalise_row:
  "floor_row e (normalise_row r) =
     (if sum_list r = 0
      then map (\<lambda>x. if x = 0 \<or> e = 1 then NaN else if (0 < x) = (e < 1) then PInf else NInf) r
      else map (\<lambda>x. Fin (e + (1 - e) * (x / sum_list r))) r)"
  by (simp add: floor_row_def normalise_row_def floor_div_zero np_div_def)

text \<open>
  C5 (as amended). There is no test of the row sums. When the table ends with the all-X
  class and a row that the filter keeps sums to zero over the classes that remain,
  \<open>clean_post\<close> raises nothing: it returns the cleaned matrix with its mask. In that
  matrix a row of sum zero has become the row of what the division by zero and the
  floor leave, in which no entry is finite: \<open>nan\<close> where the entry was zero; where it
  was not, an infinity with the sign of the entry for a floor below 1 and with the
  opposite sign for a floor above 1, and \<open>nan\<close> for the floor 1. Every other row is
  normalised and floored.
\<close>

theorem clean_post_zero_row_divides:
  assumes "kmers \<noteq> []" "last kmers = replicate (length (last kmers)) CHR ''X''"
      and "\<not> list_ex (\<lambda>r. r = []) post"
      and "r \<in> set post" "argmax r \<noteq> shape1 post - 1" "sum_list (butlast r) = 0"
  shows "\<exists>m. clean_post post kmers min_prob
                = Inr (Some (m, map (\<lambda>r. argmax r \<noteq> shape1 post - 1) post))
            \<and> m = map (\<lambda>r. if sum_list (butlast r) = 0
                             then map (\<lambda>x. if x = 0 \<or> min_prob = 1 then NaN
                                           else if (0 < x) = (min_prob < 1) then PInf else NInf)
                                    (butlast r)
                             else map (\<lambda>x. Fin (min_prob
                                                 + (1 - min_prob) * (x / sum_list (butlast r))))
                                    (butlast r))
                    (filter (\<lambda>r. argmax r \<noteq> shape1 post - 1) post)
            \<and> map (\<lambda>x. if x = 0 \<or> min_prob = 1 then NaN
                        else if (0 < x) = (min_prob < 1) then PInf else NInf) (butlast r)
                \<in> set m
            \<and> list_all (\<lambda>v. \<not> isfinite v)
                 (map (\<lambda>x. if x = 0 \<or> min_prob = 1 then NaN
                           else if (0 < x) = (min_prob < 1) then PInf else NInf) (butlast r))"
proof -
  let ?keep = "\<lambda>r. argmax r \<noteq> shape1 post - 1"
  let ?zero = "\<lambda>r. map (\<lambda>x. if x = 0 \<or> min_prob = 1 then NaN
                           else if (0 < x) = (min_prob < 1) then PInf else NInf) (butlast r)"
  let ?row = "\<lambda>r. if sum_list (butlast r) = 0 then ?zero r
                  else map (\<lambda>x. Fin (min_prob + (1 - min_prob) * (x / sum_list (butlast r))))
                         (butlast r)"
  have kept: "r \<in> set (filter ?keep post)" using assms(4,5) by simp
  have ne: "filter ?keep post \<noteq> []"
  proof
    assume e: "filter ?keep post = []"
    from kept show False unfolding e by simp
  qed
  have c: "clean_post post kmers min_prob = Inr (Some (map ?row (filter ?keep post), map ?keep post))"
    unfolding clean_post_sentinel [OF assms(1-3)] Let_def floor_normalise_row
    using ne by (simp only: if_False)
  have "?row r = ?zero r" using assms(6) by (simp only: simp_thms if_True)
  then have "?zero r \<in> ?row ` set (filter ?keep post)" using kept by (rule image_eqI [OF sym])
  then have mem: "?zero r \<in> set (map ?row (filter ?keep post))" by (simp only: set_map)
  have nf: "list_all (\<lambda>v. \<not> isfinite v) (?zero r)"
    by (auto simp: list_all_iff isfinite_def)
  show ?thesis
    by (rule exI [of _ "map ?row (filter ?keep post)"]) (intro conjI c refl mem nf)
qed

text \<open>
  C5, at a posterior of one row of zeros, which comes back as two \<open>nan\<close>, and at the row
  \<open>(1, -1, 0)\<close> with the floor 1, which comes back as two \<open>nan\<close> as well.
\<close>

theorem clean_post_zero_row_divides_witness:
  "clean_post [[0, 0, 0]] [''AAA'', ''AAC'', ''XXX''] (1 / 100000)
     = Inr (Some ([[NaN, NaN]], [True]))
   \<and> clean_post [[1, - 1, 0]] [''AAA'', ''AAC'', ''XXX''] 1 = Inr (Some ([[NaN, NaN]], [True]))"
proof -
  from clean_post_zero_row_divides [of "[''AAA'', ''AAC'', ''XXX'']" "[[0, 0, 0]]" "[0, 0, 0]"
         "1 / 100000"]
  have a: "clean_post [[0, 0, 0]] [''AAA'', ''AAC'', ''XXX''] (1 / 100000)
             = Inr (Some ([[NaN, NaN]], [True]))"
    by (simp add: shape1_def)
  from clean_post_zero_row_divides [of "[''AAA'', ''AAC'', ''XXX'']" "[[1, - 1, 0]]" "[1, - 1, 0]" 1]
  have b: "clean_post [[1, - 1, 0]] [''AAA'', ''AAC'', ''XXX''] 1 = Inr (Some ([[NaN, NaN]], [True]))"
    by (simp add: shape1_def)
  from a b show ?thesis by (rule conjI)
qed

text \<open>
  C5 as it is stated fails: for a posterior with a row of zeros the function signals no
  error; it returns the matrix, with \<open>nan\<close> in the place of that row.
\<close>

theorem clean_post_zero_row_counterexample:
  "clean_post [[0, 0, 0], [1 / 2, 1 / 2, 0]] [''AAA'', ''AAC'', ''XXX''] (1 / 4)
     = Inr (Some ([[NaN, NaN], [Fin (5 / 8), Fin (5 / 8)]], [True, True]))"
  by (simp add: clean_post_def shape1_def select_rows_def normalise_row_def floor_row_def np_div_def)


section \<open>Facts about process\_read\<close>

lemma make_basecall_input_single:
  "make_basecall_input_multi ex [f] =
     (case ex f of Faulted e \<Rightarrow> Inl e | Unusable \<Rightarrow> Inr [] | Usable x ev \<Rightarrow> Inr [(f, x, ev)])"
  by (simp split: extraction.splits)

lemma process_read_not_usable:
  "\<not> usable env fast5 \<Longrightarrow>
     process_read env fast5 min_prob trans_prior post_only write_events fast_decode read_section
       = ([], Inr RNone)"
  by (simp add: process_read_def usable_def make_basecall_input_single split: extraction.splits)

lemma process_read_run_raises:
  "extract_features env fast5 = Usable x ev \<Longrightarrow> network_run env x = Inl e \<Longrightarrow>
     process_read env fast5 min_prob trans_prior post_only write_events fast_decode read_section
       = ([], Inl e)"
  by (simp add: process_read_def make_basecall_input_single)

lemma process_read_clean_raises:
  "extract_features env fast5 = Usable x ev \<Longrightarrow> network_run env x = Inr post0 \<Longrightarrow>
   clean_post post0 (net_kmers env) min_prob = Inl e \<Longrightarrow>
     process_read env fast5 min_prob trans_prior post_only write_events fast_decode read_section
       = ([], Inl e)"
  by (simp add: process_read_def make_basecall_input_single)

lemma process_read_post_only_cleaned:
  "extract_features env fast5 = Usable x ev \<Longrightarrow> network_run env x = Inr post0 \<Longrightarrow>
   clean_post post0 (net_kmers env) min_prob = Inr cleaned \<Longrightarrow>
     process_read env fast5 min_prob trans_prior True write_events fast_decode read_section
       = ([], Inr (case cleaned of None \<Rightarrow> RNone | Some (m, good_events) \<Rightarrow> RPost m))"
  by (simp add: process_read_def make_basecall_input_single split: option.splits)

text \<open>
  After \<open>clean_post\<close> returned \<^verbatim>\<open>(None, None)\<close> and without \<open>post_only\<close>, the function
  never returns \<^verbatim>\<open>None\<close>, whatever the decoder does with the \<^verbatim>\<open>None\<close> it is handed: the
  call raises what the decoder (or a later step) raises, or returns a tuple.
\<close>

lemma process_read_empty_clean_no_failure:
  assumes "extract_features env fast5 = Usable x ev" "network_run env x = Inr post0"
      and "clean_post post0 (net_kmers env) min_prob = Inr None"
  shows "snd (process_read env fast5 min_prob trans_prior False write_events fast_decode read_section)
           \<noteq> Inr RNone"
  using assms
  by (simp add: process_read_def make_basecall_input_single Let_def
           split: sum.splits option.splits prod.splits)

text \<open>
  C2 (as amended). A read that feature extraction does not deliver, because it is
  unusable or because extraction raised, gives \<^verbatim>\<open>None\<close>: no exception and no write.
  That is the only handler. What the network raises on the features of a read, and
  what \<open>clean_post\<close> raises on its posterior, is raised by \<open>process_read\<close>.
\<close>

theorem process_read_failure_containment:
  "(\<not> usable env fast5 \<longrightarrow>
      process_read env fast5 min_prob trans_prior post_only write_events fast_decode read_section
        = ([], Inr RNone))
   \<and> (\<forall>x ev e. extract_features env fast5 = Usable x ev \<and> network_run env x = Inl e \<longrightarrow>
      process_read env fast5 min_prob trans_prior post_only write_events fast_decode read_section
        = ([], Inl e))
   \<and> (\<forall>x ev post0 e. extract_features env fast5 = Usable x ev \<and> network_run env x = Inr post0
         \<and> clean_post post0 (net_kmers env) min_prob = Inl e \<longrightarrow>
      process_read env fast5 min_prob trans_prior post_only write_events fast_decode read_section
        = ([], Inl e))"
  by (simp add: process_read_not_usable process_read_run_raises process_read_clean_raises)

text \<open>
  C2, in the small run: the unusable read \<open>B\<close> gives \<^verbatim>\<open>None\<close>; with a network that raises
  ValueError the read \<open>A\<close> raises it; with a table of k-mers that is empty the IndexError
  of \<open>clean_post\<close> is raised.
\<close>

theorem process_read_failure_containment_witness:
  "process_read example_env ''B'' (1 / 100000) None False True True ''template'' = ([], Inr RNone)
   \<and> process_read (example_env\<lparr>network_run := \<lambda>x. Inl ValueError\<rparr>) ''A'' (1 / 100000) None
        False True True ''template'' = ([], Inl ValueError)
   \<and> process_read (example_env\<lparr>net_kmers := []\<rparr>) ''A'' (1 / 100000) None
        False True True ''template'' = ([], Inl IndexError)"
  using process_read_failure_containment [of example_env "''B''" "1 / 100000" None False True True
          "''template''"]
        process_read_failure_containment [of "example_env\<lparr>network_run := \<lambda>x. Inl ValueError\<rparr>"
          "''A''" "1 / 100000" None False True True "''template''"]
        process_read_failure_containment [of "example_env\<lparr>net_kmers := []\<rparr>"
          "''A''" "1 / 100000" None False True True "''template''"]
  by (simp add: example_env_def usable_def clean_post_def)

text \<open>
  C2 as it is stated fails: the read \<open>A\<close> is usable, the network raises ValueError on its
  features, and \<open>process_read\<close> raises that exception instead of returning \<^verbatim>\<open>None\<close>.
\<close>

theorem process_read_inference_raise_counterexample:
  "process_read (example_env\<lparr>network_run := \<lambda>x. Inl ValueError\<rparr>) ''A'' (1 / 100000) None
     False True True ''template'' = ([], Inl ValueError)
   \<and> process_read (example_env\<lparr>network_run := \<lambda>x. Inl ValueError\<rparr>) ''A'' (1 / 100000) None
     False True True ''template'' \<noteq> ([], Inr RNone)"
  by (simp add: process_read_def example_env_def)

text \<open>
  C10. With \<open>post_only\<close> the call writes nothing to any container; what it returns or
  raises does not depend on the decoders, on the collapse of the path, on the writer,
  on the clock of the decoding phase or on the arguments \<open>trans\<close>, \<open>write_events\<close>,
  \<open>fast_decode\<close> and \<open>section\<close>; it never returns a tuple with a sequence and a score;
  and what it returns after cleaning is what \<open>clean_post\<close> gave as matrix: the cleaned
  matrix, or the \<^verbatim>\<open>None\<close> of a read without good events.
\<close>

theorem process_read_post_only:
  "fst (process_read env fast5 min_prob trans_prior True write_events fast_decode read_section) = []
   \<and> process_read
        (env\<lparr>decode_homogenous := dh, fast_estimate_transitions := fe, decode_profile := dp,
             decode_profile_opencl := dpo, kmers_to_sequence := ks, write_fault := wf',
             decode_time := dt\<rparr>)
        fast5 min_prob trans_prior' True write_events' fast_decode' read_section'
      = process_read env fast5 min_prob trans_prior True write_events fast_decode read_section
   \<and> (\<forall>d. snd (process_read env fast5 min_prob trans_prior True write_events fast_decode read_section)
            \<noteq> Inr (RTuple d))
   \<and> (\<forall>x ev post0 cleaned.
         extract_features env fast5 = Usable x ev \<and> network_run env x = Inr post0
           \<and> clean_post post0 (net_kmers env) min_prob = Inr cleaned \<longrightarrow>
         process_read env fast5 min_prob trans_prior True write_events fast_decode read_section
           = ([], Inr (case cleaned of None \<Rightarrow> RNone | Some (m, good_events) \<Rightarrow> RPost m)))"
proof -
  let ?env' = "env\<lparr>decode_homogenous := dh, fast_estimate_transitions := fe,
             decode_profile := dp, decode_profile_opencl := dpo, kmers_to_sequence := ks,
             write_fault := wf', decode_time := dt\<rparr>"
  let ?r = "process_read env fast5 min_prob trans_prior True write_events fast_decode read_section"
  let ?r' = "process_read ?env' fast5 min_prob trans_prior' True write_events' fast_decode' read_section'"
  have same: "extract_features ?env' = extract_features env" "network_run ?env' = network_run env"
    "net_kmers ?env' = net_kmers env"
    by simp_all
  have "fst ?r = [] \<and> ?r' = ?r \<and> (\<forall>d. snd ?r \<noteq> Inr (RTuple d))"
  proof (cases "extract_features env fast5")
    case (Usable x ev)
    show ?thesis
    proof (cases "network_run env x")
      case (Inl e)
      with Usable show ?thesis by (simp add: process_read_run_raises same)
    next
      case (Inr post0)
      show ?thesis
      proof (cases "clean_post post0 (net_kmers env) min_prob")
        case (Inl e)
        with Usable Inr show ?thesis by (simp add: process_read_clean_raises same)
      next
        case cl: (Inr cleaned)
        with Usable Inr show ?thesis
          by (simp add: process_read_post_only_cleaned same split: option.splits)
      qed
    qed
  next
    case Unusable
    then have "\<not> usable env fast5" "\<not> usable ?env' fast5" by (simp_all add: usable_def)
    then show ?thesis by (simp add: process_read_not_usable)
  next
    case (Faulted e)
    then have "\<not> usable env fast5" "\<not> usable ?env' fast5" by (simp_all add: usable_def)
    then show ?thesis by (simp add: process_read_not_usable)
  qed
  then show ?thesis by (simp add: process_read_post_only_cleaned)
qed

text \<open>
  C10, in the small run: the read \<open>A\<close> with \<open>post_only\<close> gives its cleaned posterior and no
  write, also when every decoder and the writer are replaced by ones that raise.
\<close>

theorem process_read_post_only_witness:
  "process_read example_env ''A'' (1 / 100000) None True True False ''template''
     = ([], Inr (RPost [[Fin (100001 / 200000), Fin (100001 / 200000)]]))
   \<and> process_read
        (example_env\<lparr>decode_homogenous := \<lambda>p. Inl ValueError,
             fast_estimate_transitions := \<lambda>p t. Inl ValueError,
             decode_profile := \<lambda>p t. Inl ValueError,
             decode_profile_opencl := \<lambda>n p t. Inl ValueError,
             kmers_to_sequence := \<lambda>kp. [],
             write_fault := \<lambda>w. Some ValueError,
             decode_time := 0\<rparr>)
        ''A'' (1 / 100000) None True True False ''template''
     = ([], Inr (RPost [[Fin (100001 / 200000), Fin (100001 / 200000)]]))"
proof -
  show ?thesis
    using process_read_post_only [where env = example_env and ?fast5.0 = "''A''"
        and min_prob = "1 / 100000" and trans_prior = None and write_events = True
        and fast_decode = False and read_section = "''template''"
        and dh = "\<lambda>p. Inl ValueError" and fe = "\<lambda>p t. Inl ValueError"
        and dp = "\<lambda>p t. Inl ValueError" and dpo = "\<lambda>n p t. Inl ValueError"
        and ks = "\<lambda>kp. []" and wf' = "\<lambda>w. Some ValueError" and dt = 0
        and trans_prior' = None and write_events' = True and fast_decode' = False
        and read_section' = "''template''"]
    by (simp add: example_env_def clean_post_example)
qed


section \<open>Facts about process\_read\_opencl\<close>

lemma map_exn_length: "map_exn f xs = Inr ys \<Longrightarrow> length ys = length xs"
  by (induction xs arbitrary: ys) (auto split: sum.splits)

lemma make_basecall_input_multi_usable:
  "make_basecall_input_multi (extract_features env) fs = Inr items \<Longrightarrow>
     map fst items = filter (usable env) fs"
  by (induction fs arbitrary: items) (auto simp: usable_def split: extraction.splits sum.splits)

lemma successes_Nil [simp]: "successes [] = []"
  by (simp add: successes_def List.map_filter_simps)

lemma successes_Cons [simp]:
  "successes (r # rs) = (case r of None \<Rightarrow> successes rs | Some x \<Rightarrow> x # successes rs)"
  by (simp add: successes_def List.map_filter_simps split: option.splits)

lemma successes_append [simp]: "successes (rs @ rs') = successes rs @ successes rs'"
  by (induction rs) (simp_all split: option.splits)

lemma successes_replicate_None [simp]: "successes (replicate k None) = []"
  by (induction k) simp_all

lemma successes_map_Some [simp]: "successes (map Some xs) = xs"
  by (induction xs) simp_all

lemma length_successes: "length (successes rs) + length (filter (\<lambda>r. r = None) rs) = length rs"
  by (induction rs) (simp_all split: option.splits)


lemma map_exn_Inr_iff:
  "map_exn g xs = Inr ys \<longleftrightarrow> list_all (\<lambda>x. \<not> isl (g x)) xs \<and> ys = map (\<lambda>x. projr (g x)) xs"
proof (induction xs arbitrary: ys)
  case Nil
  then show ?case by auto
next
  case (Cons x xs)
  show ?case
  proof (cases "g x")
    case (Inl e)
    then show ?thesis by simp
  next
    case gx: (Inr y)
    show ?thesis
    proof (cases "map_exn g xs")
      case (Inl e)
      with Cons.IH [of "map (\<lambda>x. projr (g x)) xs"] have "\<not> list_all (\<lambda>x. \<not> isl (g x)) xs"
        by simp
      with gx Inl show ?thesis by simp
    next
      case (Inr zs)
      with Cons.IH [of zs] gx show ?thesis by auto
    qed
  qed
qed

lemma write_all_None_iff:
  "snd (write_all fault ws) = None \<longleftrightarrow> list_all (\<lambda>w. fault w = None) ws"
  by (induction ws) (auto split: option.splits prod.splits)

lemma zip_map_same: "zip (map f xs) (map g xs) = map (\<lambda>x. (f x, g x)) xs"
  by (induction xs) simp_all

lemma zip_same_map: "zip xs (map g xs) = map (\<lambda>x. (x, g x)) xs"
  by (induction xs) simp_all

lemma zip_map_replicate_length: "zip (map f xs) (replicate (length xs) c) = map (\<lambda>x. (f x, c)) xs"
  by (induction xs) simp_all

lemma list_all_map_cong_iff:
  assumes "\<And>x. x \<in> set xs \<Longrightarrow> P x \<longleftrightarrow> Q x"
      and "\<And>x. x \<in> set xs \<Longrightarrow> Q x \<Longrightarrow> f x = g x"
  shows "list_all P xs \<and> ys = map f xs \<longleftrightarrow> list_all Q xs \<and> ys = map g xs"
proof -
  have pq: "list_all P xs = list_all Q xs" using assms(1) by (simp add: list_all_iff)
  have "list_all Q xs \<Longrightarrow> map f xs = map g xs"
    using assms(2) by (simp add: list_all_iff)
  then show ?thesis unfolding pq by auto
qed

lemma decode_kmers_opencl_Inr_iff:
  "decode_kmers_opencl env mw fd pl tp = Inr decoded \<longleftrightarrow>
     list_all (\<lambda>p. \<not> isl (decode_kmers_item env mw fd tp p)) pl
     \<and> decoded = map (\<lambda>p. projr (decode_kmers_item env mw fd tp p)) pl"
proof (cases fd)
  case True
  then show ?thesis
    by (simp add: decode_kmers_opencl_def decode_kmers_item_def map_exn_Inr_iff)
next
  case False
  let ?est = "\<lambda>post. case fast_estimate_transitions env post tp of
                         Inl e \<Rightarrow> Inl e | Inr trans_est \<Rightarrow> Inr (Log_eta trans_est)"
  let ?dpo = "\<lambda>(post, tr). decode_profile_opencl env mw post tr"
  have "decode_kmers_opencl env mw fd pl tp = Inr decoded \<longleftrightarrow>
          (\<exists>tl. map_exn ?est pl = Inr tl \<and> map_exn ?dpo (zip pl tl) = Inr decoded)"
    using False by (auto simp: decode_kmers_opencl_def split: sum.splits)
  also have "\<dots> \<longleftrightarrow> list_all (\<lambda>p. \<not> isl (?est p)) pl
       \<and> (list_all (\<lambda>p. \<not> isl (?dpo (p, projr (?est p)))) pl
          \<and> decoded = map (\<lambda>p. projr (?dpo (p, projr (?est p)))) pl)"
    by (simp add: map_exn_Inr_iff zip_same_map list.pred_map comp_def)
  also have "\<dots> \<longleftrightarrow> list_all (\<lambda>p. \<not> isl (?est p) \<and> \<not> isl (?dpo (p, projr (?est p)))) pl
          \<and> decoded = map (\<lambda>p. projr (?dpo (p, projr (?est p)))) pl"
    by (auto simp: list_all_iff)
  also have "\<dots> \<longleftrightarrow> list_all (\<lambda>p. \<not> isl (decode_kmers_item env mw fd tp p)) pl
     \<and> decoded = map (\<lambda>p. projr (decode_kmers_item env mw fd tp p)) pl"
    using False
    by (intro list_all_map_cong_iff) (auto simp: decode_kmers_item_def split: sum.splits)
  finally show ?thesis .
qed

text \<open>
  The steps of the batch, each run over all the reads before the next, return exactly
  when \<open>batch_item\<close> returns on every read, and they give what it gives.
\<close>

lemma batch_phases_iff:
  "(\<exists>pl0 cleaned decoded kpl.
        map_exn (network_run_opencl env) (map (\<lambda>x. fst (snd x)) items) = Inr pl0
      \<and> map_exn (\<lambda>post. clean_post post (net_kmers env) mp) pl0 = Inr cleaned
      \<and> decode_kmers_opencl env mw fd (map (map_option fst) cleaned) tp = Inr decoded
      \<and> map_exn (kmer_path_of (net_kmers env)) (map snd decoded) = Inr kpl
      \<and> (we \<longrightarrow> snd (write_all (write_fault env)
                  (map (\<lambda>(f, ev, sq, g, kp, p, st).
                          Write_to_file f ev sec sq g kp (net_kmers env) p st)
                     (zip (map fst items) (zip (map (\<lambda>x. snd (snd x)) items)
                       (zip (map (kmers_to_sequence env) kpl)
                         (zip (map (map_option snd) cleaned)
                           (zip kpl (zip (map (map_option fst) cleaned) (map snd decoded))))))))) = None)
      \<and> succ = zip (zip (map fst items)
                       (zip (map (kmers_to_sequence env) kpl)
                          (zip (map fst decoded) (map length (map (\<lambda>x. fst (snd x)) items)))))
                  (zip (replicate (length items) (network_time env / real n))
                       (replicate (length items) (decode_time env / real n))))
   \<longleftrightarrow> map_exn (batch_item env mw mp tp we fd sec n) items = Inr succ"
  (is "?L \<longleftrightarrow> ?R")
proof -
  let ?a = "\<lambda>it :: string \<times> matrix \<times> events. projr (network_run_opencl env (fst (snd it)))"
  let ?b = "\<lambda>it. projr (clean_post (?a it) (net_kmers env) mp)"
  let ?d = "\<lambda>it. projr (decode_kmers_item env mw fd tp (map_option fst (?b it)))"
  let ?k = "\<lambda>it. projr (kmer_path_of (net_kmers env) (snd (?d it)))"
  let ?w = "\<lambda>it. Write_to_file (fst it) (snd (snd it)) sec (kmers_to_sequence env (?k it))
                   (map_option snd (?b it)) (?k it) (net_kmers env) (map_option fst (?b it))
                   (snd (?d it))"
  let ?P = "\<lambda>it. \<not> isl (network_run_opencl env (fst (snd it)))
              \<and> \<not> isl (clean_post (?a it) (net_kmers env) mp)
              \<and> \<not> isl (decode_kmers_item env mw fd tp (map_option fst (?b it)))
              \<and> \<not> isl (kmer_path_of (net_kmers env) (snd (?d it)))
              \<and> (we \<longrightarrow> write_fault env (?w it) = None)"
  let ?res = "\<lambda>it. ((fst it, kmers_to_sequence env (?k it), fst (?d it), length (fst (snd it))),
                     (network_time env / real n, decode_time env / real n))"
  have "?L \<longleftrightarrow> list_all (\<lambda>it. \<not> isl (network_run_opencl env (fst (snd it)))) items
              \<and> list_all (\<lambda>it. \<not> isl (clean_post (?a it) (net_kmers env) mp)) items
              \<and> list_all (\<lambda>it. \<not> isl (decode_kmers_item env mw fd tp (map_option fst (?b it)))) items
              \<and> list_all (\<lambda>it. \<not> isl (kmer_path_of (net_kmers env) (snd (?d it)))) items
              \<and> (we \<longrightarrow> list_all (\<lambda>it. write_fault env (?w it) = None) items)
              \<and> succ = map ?res items"
    by (simp add: map_exn_Inr_iff decode_kmers_opencl_Inr_iff write_all_None_iff
          list.pred_map comp_def zip_map_same zip_replicate zip_map_replicate_length)
  also have "\<dots> \<longleftrightarrow> list_all ?P items \<and> succ = map ?res items"
    by (auto simp: list_all_iff)
  also have "\<dots> \<longleftrightarrow> list_all (\<lambda>it. \<not> isl (batch_item env mw mp tp we fd sec n it)) items
                    \<and> succ = map (\<lambda>it. projr (batch_item env mw mp tp we fd sec n it)) items"
    by (intro list_all_map_cong_iff)
       (auto simp: batch_item_def split: sum.splits option.splits)
  also have "\<dots> \<longleftrightarrow> ?R" by (simp add: map_exn_Inr_iff)
  finally show ?thesis .
qed

lemma process_read_opencl_returns_iff:
  assumes m: "make_basecall_input_multi (extract_features env) fs = Inr items"
      and ne: "items \<noteq> []"
  shows "snd (process_read_opencl env pa fs mp tp we fd sec) = Inr ret \<longleftrightarrow>
           (\<exists>mw succ. opencl_setup env pa = Inr mw
              \<and> map_exn (batch_item env mw mp tp we fd sec (length items)) items = Inr succ
              \<and> ret = map Some succ @ replicate (length fs - length items) None)"
proof -
  from ne obtain item rest where items: "items = item # rest" by (cases items) auto
  have pad: "(if length items < length fs then replicate (length fs - length items) None else [])
               = (replicate (length fs - length items) None :: work_result option list)"
    by simp
  have "snd (process_read_opencl env pa fs mp tp we fd sec) = Inr ret \<longleftrightarrow>
     (\<exists>mw succ. opencl_setup env pa = Inr mw \<and>
       (\<exists>pl0 cleaned decoded kpl.
        map_exn (network_run_opencl env) (map (\<lambda>x. fst (snd x)) items) = Inr pl0
      \<and> map_exn (\<lambda>post. clean_post post (net_kmers env) mp) pl0 = Inr cleaned
      \<and> decode_kmers_opencl env mw fd (map (map_option fst) cleaned) tp = Inr decoded
      \<and> map_exn (kmer_path_of (net_kmers env)) (map snd decoded) = Inr kpl
      \<and> (we \<longrightarrow> snd (write_all (write_fault env)
                  (map (\<lambda>(f, ev, sq, g, kp, p, st).
                          Write_to_file f ev sec sq g kp (net_kmers env) p st)
                     (zip (map fst items) (zip (map (\<lambda>x. snd (snd x)) items)
                       (zip (map (kmers_to_sequence env) kpl)
                         (zip (map (map_option snd) cleaned)
                           (zip kpl (zip (map (map_option fst) cleaned) (map snd decoded))))))))) = None)
      \<and> succ = zip (zip (map fst items)
                       (zip (map (kmers_to_sequence env) kpl)
                          (zip (map fst decoded) (map length (map (\<lambda>x. fst (snd x)) items)))))
                  (zip (replicate (length items) (network_time env / real (length items)))
                       (replicate (length items) (decode_time env / real (length items)))))
       \<and> ret = map Some succ @ replicate (length fs - length items) None)"
    using pad unfolding items
    by (auto simp: process_read_opencl_def m items Let_def
             split: sum.splits prod.splits option.splits)
  then show ?thesis unfolding batch_phases_iff .
qed

lemma make_basecall_input_multi_Inl_iff:
  "(\<exists>e. make_basecall_input_multi (extract_features env) fs = Inl e) \<longleftrightarrow> list_ex (faulted env) fs"
  by (induction fs) (auto simp: faulted_def split: extraction.splits sum.splits)

lemma make_basecall_input_multi_items:
  "make_basecall_input_multi (extract_features env) fs = Inr items \<Longrightarrow>
     list_all (\<lambda>it. extract_features env (fst it) = Usable (fst (snd it)) (snd (snd it))) items"
  by (induction fs arbitrary: items) (auto split: extraction.splits sum.splits)

lemma batch_item_result:
  assumes "batch_item env mw mp tp we fd sec n it = Inr s"
  shows "fst (fst s) = fst it"
    and "snd (snd (snd (fst s))) = length (fst (snd it))"
    and "snd s = (network_time env / real n, decode_time env / real n)"
  using assms
  by (auto simp: batch_item_def split: sum.splits option.splits)

lemma map_exn_batch_item:
  assumes "map_exn (batch_item env mw mp tp we fd sec n) items = Inr succ"
  shows "length succ = length items"
    and "map (\<lambda>s. fst (fst s)) succ = map fst items"
    and "map snd succ = replicate (length items)
                          (network_time env / real n, decode_time env / real n)"
proof -
  show "length succ = length items" using assms by (rule map_exn_length)
  show "map (\<lambda>s. fst (fst s)) succ = map fst items"
    using assms
  proof (induction items arbitrary: succ)
    case Nil
    then show ?case by simp
  next
    case (Cons it items)
    then show ?case by (auto split: sum.splits dest: batch_item_result(1))
  qed
  show "map snd succ = replicate (length items)
                         (network_time env / real n, decode_time env / real n)"
    using assms
  proof (induction items arbitrary: succ)
    case Nil
    then show ?case by simp
  next
    case (Cons it items)
    then show ?case by (auto split: sum.splits dest: batch_item_result(3))
  qed
qed

lemma process_read_opencl_no_items:
  assumes "(\<exists>e. make_basecall_input_multi (extract_features env) fs = Inl e)
           \<or> make_basecall_input_multi (extract_features env) fs = Inr []"
  shows "process_read_opencl env pa fs mp tp we fd sec = ([], Inr (replicate (length fs) None))"
  using assms by (auto simp: process_read_opencl_def)

text \<open>
  What a call on a batch returns, and when: all markers when feature extraction
  raises or keeps no read; otherwise the call returns exactly when the device is set
  up and every step on every read kept returns, and then it returns the results of
  those reads, in their order, followed by the markers.
\<close>

lemma process_read_opencl_result:
  "snd (process_read_opencl env pa fs mp tp we fd sec) = Inr ret \<longleftrightarrow>
     (case make_basecall_input_multi (extract_features env) fs of
        Inl e \<Rightarrow> ret = replicate (length fs) None
      | Inr items \<Rightarrow>
          if items = [] then ret = replicate (length fs) None
          else (\<exists>mw succ. opencl_setup env pa = Inr mw
                  \<and> map_exn (batch_item env mw mp tp we fd sec (length items)) items = Inr succ
                  \<and> ret = map Some succ @ replicate (length fs - length items) None))"
proof (cases "make_basecall_input_multi (extract_features env) fs")
  case (Inl e)
  then show ?thesis by (auto simp: process_read_opencl_no_items)
next
  case (Inr items)
  show ?thesis
  proof (cases "items = []")
    case True
    with Inr show ?thesis by (auto simp: process_read_opencl_no_items)
  next
    case False
    from process_read_opencl_returns_iff [OF Inr False] Inr False show ?thesis by simp
  qed
qed

text \<open>
  The narrowed forms of the result: its length, the names of its results and its
  times.
\<close>

lemma process_read_opencl_narrowed:
  assumes "snd (process_read_opencl env pa fs mp tp we fd sec) = Inr ret"
  shows "length ret = length fs"
    and "ret = map Some (successes ret) @ replicate (length fs - length (successes ret)) None"
    and "list_ex (faulted env) fs \<Longrightarrow> successes ret = []"
    and "\<not> list_ex (faulted env) fs \<Longrightarrow>
           map (\<lambda>s. fst (fst s)) (successes ret) = filter (usable env) fs"
    and "map snd (successes ret) =
           replicate (length (successes ret))
             (network_time env / real (length (filter (usable env) fs)),
              decode_time env / real (length (filter (usable env) fs)))"
proof -
  have "length ret = length fs
      \<and> ret = map Some (successes ret) @ replicate (length fs - length (successes ret)) None
      \<and> (list_ex (faulted env) fs \<longrightarrow> successes ret = [])
      \<and> (\<not> list_ex (faulted env) fs \<longrightarrow>
           map (\<lambda>s. fst (fst s)) (successes ret) = filter (usable env) fs)
      \<and> map snd (successes ret) =
           replicate (length (successes ret))
             (network_time env / real (length (filter (usable env) fs)),
              decode_time env / real (length (filter (usable env) fs)))"
  proof (cases "make_basecall_input_multi (extract_features env) fs")
    case (Inl e)
    then have "list_ex (faulted env) fs" using make_basecall_input_multi_Inl_iff by blast
    moreover from Inl assms have "ret = replicate (length fs) None"
      by (simp add: process_read_opencl_result)
    ultimately show ?thesis by simp
  next
    case (Inr items)
    then have nf: "\<not> list_ex (faulted env) fs"
      using make_basecall_input_multi_Inl_iff [of env fs] by simp
    have names: "map fst items = filter (usable env) fs"
      using Inr by (rule make_basecall_input_multi_usable)
    then have li: "length items = length (filter (usable env) fs)" by (metis length_map)
    then have le: "length items \<le> length fs" by simp
    show ?thesis
    proof (cases "items = []")
      case True
      with Inr assms have "ret = replicate (length fs) None"
        by (simp add: process_read_opencl_result)
      with nf names True show ?thesis by simp
    next
      case False
      with Inr assms obtain mw succ where
        b: "map_exn (batch_item env mw mp tp we fd sec (length items)) items = Inr succ"
        and r: "ret = map Some succ @ replicate (length fs - length items) None"
        by (auto simp: process_read_opencl_result)
      have s: "successes ret = succ" unfolding r by simp
      from map_exn_batch_item [OF b] have ls: "length succ = length items"
        and ns: "map (\<lambda>s. fst (fst s)) succ = map fst items"
        and ts: "map snd succ = replicate (length items)
                   (network_time env / real (length items),
                    decode_time env / real (length items))"
        by simp_all
      show ?thesis unfolding s using r ls ns ts nf names li le by simp
    qed
  qed
  then show "length ret = length fs"
    and "ret = map Some (successes ret) @ replicate (length fs - length (successes ret)) None"
    and "list_ex (faulted env) fs \<Longrightarrow> successes ret = []"
    and "\<not> list_ex (faulted env) fs \<Longrightarrow>
           map (\<lambda>s. fst (fst s)) (successes ret) = filter (usable env) fs"
    and "map snd (successes ret) =
           replicate (length (successes ret))
             (network_time env / real (length (filter (usable env) fs)),
              decode_time env / real (length (filter (usable env) fs)))"
    by simp_all
qed

text \<open>The batch of the reads \<open>A\<close>, \<open>B\<close>, \<open>C\<close> in the small run.\<close>

lemma process_read_opencl_example:
  "snd (process_read_opencl example_env example_pa [''A'', ''B'', ''C''] (1 / 100000) None
          False True ''template'')
     = Inr [Some ((''A'', ''AAA'', 0, 1), 3 / 2, 3), Some ((''C'', ''AAA'', 0, 1), 3 / 2, 3), None]"
  by (simp add: process_read_opencl_def example_env_def decode_kmers_opencl_def
        clean_post_example kmer_path_of_def)

lemma example_env_no_fault: "\<not> list_ex (faulted example_env) fs"
  by (simp add: list_ex_iff faulted_def example_env_def)

lemma example_env_usable: "filter (usable example_env) [''A'', ''B'', ''C''] = [''A'', ''C'']"
  by (simp add: usable_def example_env_def)

text \<open>
  C1 (as amended). When the call on a batch of \<open>N\<close> reads returns, it returns \<open>N\<close> results:
  first the results of the reads that feature extraction kept, in the order of the
  input, and after them the markers \<^verbatim>\<open>None\<close> that pad the list to \<open>N\<close>; when extraction
  raised, all \<open>N\<close> results are markers. So the markers stand at the end of the list,
  not at the positions of the reads that were dropped. When extraction raises or
  keeps no read the call does return, with \<open>N\<close> markers. Otherwise it returns exactly
  when the device is set up and every step of lines 255--301 returns on every read
  kept, and the results are what these steps give for those reads (\<open>batch_item\<close>).
\<close>

theorem process_read_opencl_padding:
  "(\<forall>ret. snd (process_read_opencl env pa fast5_list min_prob trans_prior write_events
                fast_decode read_section) = Inr ret \<longrightarrow>
       length ret = length fast5_list
       \<and> (\<exists>succ. ret = map Some succ @ replicate (length fast5_list - length succ) None
             \<and> (if list_ex (faulted env) fast5_list then succ = []
                else map (\<lambda>s. fst (fst s)) succ = filter (usable env) fast5_list)))
   \<and> (list_ex (faulted env) fast5_list \<or> filter (usable env) fast5_list = [] \<longrightarrow>
        process_read_opencl env pa fast5_list min_prob trans_prior write_events fast_decode
          read_section = ([], Inr (replicate (length fast5_list) None)))
   \<and> (\<not> list_ex (faulted env) fast5_list \<and> filter (usable env) fast5_list \<noteq> [] \<longrightarrow>
        (\<exists>items. make_basecall_input_multi (extract_features env) fast5_list = Inr items
           \<and> map fst items = filter (usable env) fast5_list
           \<and> list_all (\<lambda>it. extract_features env (fst it) = Usable (fst (snd it)) (snd (snd it)))
                items
           \<and> (\<forall>ret. snd (process_read_opencl env pa fast5_list min_prob trans_prior write_events
                          fast_decode read_section) = Inr ret \<longleftrightarrow>
                 (\<exists>mw succ. opencl_setup env pa = Inr mw
                    \<and> map_exn (batch_item env mw min_prob trans_prior write_events fast_decode
                                 read_section (length items)) items = Inr succ
                    \<and> ret = map Some succ
                              @ replicate (length fast5_list - length items) None))))"
proof (intro conjI allI impI)
  fix ret
  assume r: "snd (process_read_opencl env pa fast5_list min_prob trans_prior write_events
                fast_decode read_section) = Inr ret"
  show "length ret = length fast5_list" using r by (rule process_read_opencl_narrowed(1))
  have "ret = map Some (successes ret)
                @ replicate (length fast5_list - length (successes ret)) None"
    using r by (rule process_read_opencl_narrowed(2))
  moreover have "if list_ex (faulted env) fast5_list then successes ret = []
                 else map (\<lambda>s. fst (fst s)) (successes ret) = filter (usable env) fast5_list"
    using process_read_opencl_narrowed(3,4) [OF r] by simp
  ultimately show "\<exists>succ. ret = map Some succ @ replicate (length fast5_list - length succ) None
             \<and> (if list_ex (faulted env) fast5_list then succ = []
                else map (\<lambda>s. fst (fst s)) succ = filter (usable env) fast5_list)"
    by (intro exI [of _ "successes ret"] conjI)
next
  assume a: "list_ex (faulted env) fast5_list \<or> filter (usable env) fast5_list = []"
  have "(\<exists>e. make_basecall_input_multi (extract_features env) fast5_list = Inl e)
        \<or> make_basecall_input_multi (extract_features env) fast5_list = Inr []"
  proof (cases "make_basecall_input_multi (extract_features env) fast5_list")
    case (Inl e)
    then show ?thesis by simp
  next
    case (Inr items)
    then have "\<not> list_ex (faulted env) fast5_list"
      using make_basecall_input_multi_Inl_iff [of env fast5_list] by simp
    with a have "filter (usable env) fast5_list = []" by simp
    with make_basecall_input_multi_usable [OF Inr] have "items = []" by simp
    with Inr show ?thesis by simp
  qed
  then show "process_read_opencl env pa fast5_list min_prob trans_prior write_events fast_decode
          read_section = ([], Inr (replicate (length fast5_list) None))"
    by (rule process_read_opencl_no_items)
next
  assume a: "\<not> list_ex (faulted env) fast5_list \<and> filter (usable env) fast5_list \<noteq> []"
  then obtain items where
    m: "make_basecall_input_multi (extract_features env) fast5_list = Inr items"
    using make_basecall_input_multi_Inl_iff [of env fast5_list]
    by (cases "make_basecall_input_multi (extract_features env) fast5_list") auto
  have names: "map fst items = filter (usable env) fast5_list"
    using m by (rule make_basecall_input_multi_usable)
  with a have ne: "items \<noteq> []" by auto
  have ex: "list_all (\<lambda>it. extract_features env (fst it) = Usable (fst (snd it)) (snd (snd it)))
              items"
    using m by (rule make_basecall_input_multi_items)
  have "\<forall>ret. snd (process_read_opencl env pa fast5_list min_prob trans_prior write_events
                          fast_decode read_section) = Inr ret \<longleftrightarrow>
                 (\<exists>mw succ. opencl_setup env pa = Inr mw
                    \<and> map_exn (batch_item env mw min_prob trans_prior write_events fast_decode
                                 read_section (length items)) items = Inr succ
                    \<and> ret = map Some succ
                              @ replicate (length fast5_list - length items) None)"
    using process_read_opencl_returns_iff [OF m ne] by blast
  with m names ex show "\<exists>items. make_basecall_input_multi (extract_features env) fast5_list = Inr items
           \<and> map fst items = filter (usable env) fast5_list
           \<and> list_all (\<lambda>it. extract_features env (fst it) = Usable (fst (snd it)) (snd (snd it)))
                items
           \<and> (\<forall>ret. snd (process_read_opencl env pa fast5_list min_prob trans_prior write_events
                          fast_decode read_section) = Inr ret \<longleftrightarrow>
                 (\<exists>mw succ. opencl_setup env pa = Inr mw
                    \<and> map_exn (batch_item env mw min_prob trans_prior write_events fast_decode
                                 read_section (length items)) items = Inr succ
                    \<and> ret = map Some succ
                              @ replicate (length fast5_list - length items) None))"
    by (intro exI [of _ items] conjI)
qed

text \<open>
  C1, in the small run: of the reads \<open>A\<close>, \<open>B\<close>, \<open>C\<close> the second is unusable, and the call
  returns the results of \<open>A\<close> and \<open>C\<close> followed by one marker; on the read \<open>B\<close> alone it
  returns one marker.
\<close>

theorem process_read_opencl_padding_witness:
  "snd (process_read_opencl example_env example_pa [''A'', ''B'', ''C''] (1 / 100000) None
          False True ''template'')
     = Inr [Some ((''A'', ''AAA'', 0, 1), 3 / 2, 3), Some ((''C'', ''AAA'', 0, 1), 3 / 2, 3), None]
   \<and> length [Some ((''A'', ''AAA'', 0 :: real, 1 :: nat), 3 / 2 :: real, 3 :: real),
             Some ((''C'', ''AAA'', 0, 1), 3 / 2, 3), None] = length [''A'', ''B'', ''C'']
   \<and> (\<exists>succ. [Some ((''A'', ''AAA'', 0 :: real, 1 :: nat), 3 / 2 :: real, 3 :: real),
               Some ((''C'', ''AAA'', 0, 1), 3 / 2, 3), None]
               = map Some succ @ replicate (length [''A'', ''B'', ''C''] - length succ) None
             \<and> map (\<lambda>s. fst (fst s)) succ = [''A'', ''C''])
   \<and> process_read_opencl example_env example_pa [''B''] (1 / 100000) None False True ''template''
       = ([], Inr [None])"
proof -
  note t = process_read_opencl_padding [of example_env example_pa _ "1 / 100000" None False True
             "''template''"]
  from t [of "[''A'', ''B'', ''C'']"] process_read_opencl_example
  have a: "length [Some ((''A'', ''AAA'', 0 :: real, 1 :: nat), 3 / 2 :: real, 3 :: real),
             Some ((''C'', ''AAA'', 0, 1), 3 / 2, 3), None] = length [''A'', ''B'', ''C'']
   \<and> (\<exists>succ. [Some ((''A'', ''AAA'', 0 :: real, 1 :: nat), 3 / 2 :: real, 3 :: real),
               Some ((''C'', ''AAA'', 0, 1), 3 / 2, 3), None]
               = map Some succ @ replicate (length [''A'', ''B'', ''C''] - length succ) None
             \<and> map (\<lambda>s. fst (fst s)) succ = [''A'', ''C''])"
    by (simp only: example_env_no_fault example_env_usable if_False)
  have "filter (usable example_env) [''B''] = []" by (simp add: usable_def example_env_def)
  with t [of "[''B'']"]
  have b: "process_read_opencl example_env example_pa [''B''] (1 / 100000) None False True
             ''template'' = ([], Inr [None])"
    by simp
  show ?thesis
    by (intro conjI process_read_opencl_example conjunct1 [OF a] conjunct2 [OF a] b)
qed

text \<open>
  C1 as it is stated fails: in that run the read at position 1, \<open>B\<close>, is the one that
  failed feature extraction, yet position 1 of the result holds the result of \<open>C\<close>, and
  the marker stands at position 2, the position of the read \<open>C\<close>, which succeeded.
\<close>

theorem process_read_opencl_padding_counterexample:
  "snd (process_read_opencl example_env example_pa [''A'', ''B'', ''C''] (1 / 100000) None
          False True ''template'')
     = Inr [Some ((''A'', ''AAA'', 0, 1), 3 / 2, 3), Some ((''C'', ''AAA'', 0, 1), 3 / 2, 3), None]
   \<and> \<not> usable example_env ([''A'', ''B'', ''C''] ! 1)
   \<and> usable example_env ([''A'', ''B'', ''C''] ! 2)"
  by (intro conjI process_read_opencl_example) (simp_all add: usable_def example_env_def)



section \<open>Facts about main\<close>

subsection \<open>The way the load is spread\<close>

lemma n_devices_platforms:
  "n_devices a = (case platforms a of None \<Rightarrow> 0 | Some (p, ps) \<Rightarrow> Suc (length ps))"
  by (simp add: n_devices_def workers_def split: option.splits prod.splits)

lemma n_cpu_workers_jobs:
  "n_cpu_workers a = (if exc_opencl a then 0 else nat (jobs a))"
  by (simp add: n_cpu_workers_def workers_def split: option.splits prod.splits)

lemma length_workers: "length (workers a) = n_cpu_workers a + n_devices a"
  by (simp add: n_devices_platforms n_cpu_workers_jobs) (simp add: workers_def split: option.splits)

text \<open>
  With no device and no CPU worker (\<^verbatim>\<open>--exc_opencl\<close> without \<^verbatim>\<open>--platforms\<close>, or no
  job) the branch of the CPU is the one taken, and line 371 raises IndexError there.
\<close>

lemma select_workers_no_worker:
  "platforms a = None \<Longrightarrow> exc_opencl a \<or> jobs a \<le> 0 \<Longrightarrow> select_workers a = Inl IndexError"
  by (auto simp: select_workers_def select_strategy_def workers_def)

text \<open>
  C6. The branch taken in lines 369--381 is a function of the arguments alone, and it
  is the one that the specification gives for the number of devices and of CPU
  workers in the list of workers: the CPU alone without a device; the single device
  for one device and no CPU worker; the job queue for one device with at least one
  CPU worker and for two or more devices.
\<close>

theorem select_strategy_spec:
  "select_strategy a = spec_strategy (n_devices a) (n_cpu_workers a)
   \<and> (n_devices a = 0 \<longrightarrow> select_strategy a = CpuOnly)
   \<and> (n_devices a = 1 \<and> n_cpu_workers a = 0 \<longrightarrow> select_strategy a = SingleDevice)
   \<and> (n_devices a = 1 \<and> 1 \<le> n_cpu_workers a \<or> 2 \<le> n_devices a
        \<longrightarrow> select_strategy a = Heterogeneous)"
proof -
  have eq: "select_strategy a = spec_strategy (n_devices a) (n_cpu_workers a)"
  proof (cases "platforms a")
    case None
    then show ?thesis by (simp add: select_strategy_def spec_strategy_def n_devices_platforms)
  next
    case (Some pps)
    then have "0 < n_devices a" by (simp add: n_devices_platforms split: prod.splits)
    with Some show ?thesis
      by (auto simp: select_strategy_def spec_strategy_def length_workers)
  qed
  show ?thesis unfolding eq by (auto simp: spec_strategy_def)
qed

text \<open>
  C6, for three command lines: one job and no platform; \<^verbatim>\<open>--exc_opencl\<close> with one
  platform; one job with one platform.
\<close>

theorem select_strategy_spec_witness:
  "select_strategy \<lparr>exc_opencl = False, jobs = 1, platforms = None, fast_decode_arg = False,
       write_events_arg = False, section_arg = ''template''\<rparr> = CpuOnly
   \<and> select_strategy \<lparr>exc_opencl = True, jobs = 1, platforms = Some ((''nvidia'', 0, 3), []),
       fast_decode_arg = False, write_events_arg = False, section_arg = ''template''\<rparr>
       = SingleDevice
   \<and> select_strategy \<lparr>exc_opencl = False, jobs = 1, platforms = Some ((''nvidia'', 0, 3), []),
       fast_decode_arg = False, write_events_arg = False, section_arg = ''template''\<rparr>
       = Heterogeneous"
  using select_strategy_spec [of "\<lparr>exc_opencl = False, jobs = 1, platforms = None,
          fast_decode_arg = False, write_events_arg = False, section_arg = ''template''\<rparr>"]
        select_strategy_spec [of "\<lparr>exc_opencl = True, jobs = 1,
          platforms = Some ((''nvidia'', 0, 3), []),
          fast_decode_arg = False, write_events_arg = False, section_arg = ''template''\<rparr>"]
        select_strategy_spec [of "\<lparr>exc_opencl = False, jobs = 1,
          platforms = Some ((''nvidia'', 0, 3), []),
          fast_decode_arg = False, write_events_arg = False, section_arg = ''template''\<rparr>"]
  by (simp add: n_devices_platforms n_cpu_workers_jobs spec_strategy_def)

subsection \<open>The results\<close>

lemma foldl_consume:
  "foldl (consume short_names) t results =
     t\<lparr>fasta := fasta t @ map (\<lambda>s. (fst (short_names (fst (fst s))), fst (snd (fst s))))
                           (successes results),
       n_reads := n_reads t + length (successes results),
       n_bases := n_bases t + sum_list (map (\<lambda>s. length (fst (snd (fst s)))) (successes results)),
       n_events := n_events t + sum_list (map (\<lambda>s. snd (snd (snd (fst s)))) (successes results)),
       timings := (fst (timings t) + sum_list (map (\<lambda>s. fst (snd s)) (successes results)),
                   snd (timings t) + sum_list (map (\<lambda>s. snd (snd s)) (successes results)))\<rparr>"
proof (induction results arbitrary: t)
  case Nil
  then show ?case by simp
next
  case (Cons r results)
  have "foldl (consume short_names) t (r # results)
          = foldl (consume short_names) (consume short_names t r) results"
    by simp
  also note Cons.IH [of "consume short_names t r"]
  finally have step: "foldl (consume short_names) t (r # results) =
     (consume short_names t r)\<lparr>fasta := fasta (consume short_names t r)
            @ map (\<lambda>s. (fst (short_names (fst (fst s))), fst (snd (fst s)))) (successes results),
       n_reads := n_reads (consume short_names t r) + length (successes results),
       n_bases := n_bases (consume short_names t r)
            + sum_list (map (\<lambda>s. length (fst (snd (fst s)))) (successes results)),
       n_events := n_events (consume short_names t r)
            + sum_list (map (\<lambda>s. snd (snd (snd (fst s)))) (successes results)),
       timings := (fst (timings (consume short_names t r))
                     + sum_list (map (\<lambda>s. fst (snd s)) (successes results)),
                   snd (timings (consume short_names t r))
                     + sum_list (map (\<lambda>s. snd (snd s)) (successes results)))\<rparr>" .
  show ?case
  proof (cases r)
    case None
    show ?thesis unfolding step unfolding None by (simp add: consume_def)
  next
    case (Some s)
    obtain fname basecall score n_ev t_network t_decode
      where s: "s = ((fname, basecall, score, n_ev), (t_network, t_decode))"
      by (metis prod.exhaust)
    show ?thesis unfolding step unfolding Some s by (simp add: consume_def algebra_simps)
  qed
qed

text \<open>
  C8. Over any stream of results the loop writes one record for each result that is
  not \<^verbatim>\<open>None\<close>, in the order of arrival, and none for a \<^verbatim>\<open>None\<close>, which changes no
  counter; the counts of reads, bases and events and the two times are the sums over
  the results that are not \<^verbatim>\<open>None\<close> (in exact arithmetic); the number of records and the
  number of \<^verbatim>\<open>None\<close> add up to the length of the stream; and when no read was called
  the rates are not computed, so that nothing is divided.
\<close>

theorem aggregate_sums:
  "aggregate short_names results =
     \<lparr>n_reads = length (successes results),
      n_bases = sum_list (map (\<lambda>s. length (fst (snd (fst s)))) (successes results)),
      n_events = sum_list (map (\<lambda>s. snd (snd (snd (fst s)))) (successes results)),
      timings = (sum_list (map (\<lambda>s. fst (snd s)) (successes results)),
                 sum_list (map (\<lambda>s. snd (snd s)) (successes results))),
      fasta = map (\<lambda>s. (fst (short_names (fst (fst s))), fst (snd (fst s)))) (successes results)\<rparr>
   \<and> consume short_names t None = t
   \<and> length (fasta (aggregate short_names results)) + length (filter (\<lambda>r. r = None) results)
       = length results
   \<and> n_reads (aggregate short_names results) = length (fasta (aggregate short_names results))
   \<and> (successes results = [] \<longrightarrow> throughput (aggregate short_names results) = Inr None)"
proof -
  have a: "aggregate short_names results =
     \<lparr>n_reads = length (successes results),
      n_bases = sum_list (map (\<lambda>s. length (fst (snd (fst s)))) (successes results)),
      n_events = sum_list (map (\<lambda>s. snd (snd (snd (fst s)))) (successes results)),
      timings = (sum_list (map (\<lambda>s. fst (snd s)) (successes results)),
                 sum_list (map (\<lambda>s. snd (snd s)) (successes results))),
      fasta = map (\<lambda>s. (fst (short_names (fst (fst s))), fst (snd (fst s)))) (successes results)\<rparr>"
    unfolding aggregate_def foldl_consume by (simp add: totals0_def)
  have b: "consume short_names t None = t" by (simp add: consume_def)
  have c: "length (fasta (aggregate short_names results))
             + length (filter (\<lambda>r. r = None) results) = length results"
    unfolding a using length_successes [of results] by simp
  have d: "n_reads (aggregate short_names results) = length (fasta (aggregate short_names results))"
    unfolding a by simp
  have e: "successes results = [] \<longrightarrow> throughput (aggregate short_names results) = Inr None"
    unfolding a by (simp add: throughput_def)
  from a b c d e show ?thesis by blast
qed

text \<open>
  C8, for five reads of which the second and the fourth failed: three records, a count
  of three reads, 12 bases, 6 events, 3 and 6 seconds; and for a stream of failures
  alone no rate.
\<close>

theorem aggregate_sums_witness:
  "aggregate (\<lambda>f. (f, ''.fast5''))
      [Some ((''r1'', ''ACGT'', 0, 1), (1, 2)), None,
       Some ((''r3'', ''ACGTAC'', 0, 2), (1, 2)), None,
       Some ((''r5'', ''AC'', 0, 3), (1, 2))]
     = \<lparr>n_reads = 3, n_bases = 12, n_events = 6, timings = (3, 6),
        fasta = [(''r1'', ''ACGT''), (''r3'', ''ACGTAC''), (''r5'', ''AC'')]\<rparr>
   \<and> throughput (aggregate (\<lambda>f. (f, ''.fast5'')) [None, None]) = Inr None"
proof -
  let ?sn = "\<lambda>f :: string. (f, ''.fast5'')"
  let ?rs = "[Some ((''r1'', ''ACGT'', 0 :: real, 1 :: nat), (1 :: real, 2 :: real)), None,
              Some ((''r3'', ''ACGTAC'', 0, 2), (1, 2)), None,
              Some ((''r5'', ''AC'', 0, 3), (1, 2))]"
  from aggregate_sums [of ?sn ?rs] have "aggregate ?sn ?rs =
     \<lparr>n_reads = length (successes ?rs),
      n_bases = sum_list (map (\<lambda>s. length (fst (snd (fst s)))) (successes ?rs)),
      n_events = sum_list (map (\<lambda>s. snd (snd (snd (fst s)))) (successes ?rs)),
      timings = (sum_list (map (\<lambda>s. fst (snd s)) (successes ?rs)),
                 sum_list (map (\<lambda>s. snd (snd s)) (successes ?rs))),
      fasta = map (\<lambda>s. (fst (?sn (fst (fst s))), fst (snd (fst s)))) (successes ?rs)\<rparr>"
    by (rule conjunct1)
  then have e1: "aggregate ?sn ?rs
     = \<lparr>n_reads = 3, n_bases = 12, n_events = 6, timings = (3, 6),
        fasta = [(''r1'', ''ACGT''), (''r3'', ''ACGTAC''), (''r5'', ''AC'')]\<rparr>"
    by simp
  have "successes [None, None :: work_result option] = []" by simp
  with aggregate_sums [of ?sn "[None, None]"]
  have e2: "throughput (aggregate ?sn [None, None]) = Inr None" by blast
  from e1 e2 show ?thesis by (rule conjI)
qed


subsection \<open>The single device\<close>

lemma concat_group_by_list: "0 < n \<Longrightarrow> concat (group_by_list xs n) = xs"
proof (induction xs n rule: group_by_list.induct)
  case (1 xs n)
  show ?case
  proof (cases "xs = []")
    case True
    then show ?thesis by (subst group_by_list.simps) simp
  next
    case False
    with "1.prems" have "concat (group_by_list (drop (nat n) xs) n) = drop (nat n) xs"
      by (intro "1.IH") simp_all
    with False "1.prems" show ?thesis by (subst group_by_list.simps) simp
  qed
qed

text \<open>The stream ends without an exception exactly when the worker returns on every chunk.\<close>

lemma chain_imap_finished_iff:
  "snd (chain_imap worker cs) = (rs, None) \<longleftrightarrow>
     (\<exists>rss. list_all2 (\<lambda>c r. snd (worker c) = Inr r) cs rss \<and> rs = concat rss)"
proof (induction cs arbitrary: rs)
  case Nil
  then show ?case by auto
next
  case (Cons c cs)
  obtain ws1 o1 where w: "worker c = (ws1, o1)" by (cases "worker c")
  show ?case
  proof (cases o1)
    case (Inl e)
    with w show ?thesis by (auto simp: list_all2_Cons1)
  next
    case (Inr r1)
    obtain ws2 rs2 x2 where t: "chain_imap worker cs = (ws2, rs2, x2)"
      by (cases "chain_imap worker cs") auto
    have "snd (chain_imap worker (c # cs)) = (rs, None) \<longleftrightarrow> rs = r1 @ rs2 \<and> x2 = None"
      using w Inr t by auto
    also have "\<dots> \<longleftrightarrow> (\<exists>rs'. snd (chain_imap worker cs) = (rs', None) \<and> rs = r1 @ rs')"
      using t by auto
    also have "\<dots> \<longleftrightarrow> (\<exists>rs' rss. list_all2 (\<lambda>c r. snd (worker c) = Inr r) cs rss
                            \<and> rs' = concat rss \<and> rs = r1 @ rs')"
      unfolding Cons.IH by blast
    also have "\<dots> \<longleftrightarrow> (\<exists>rss. list_all2 (\<lambda>c r. snd (worker c) = Inr r) (c # cs) rss
                            \<and> rs = concat rss)"
      using w Inr by (auto simp: list_all2_Cons1)
    finally show ?thesis .
  qed
qed

lemma usable_not_faulted: "usable env f \<Longrightarrow> \<not> faulted env f"
  by (simp add: usable_def faulted_def split: extraction.splits)

text \<open>What the results of one chunk are, when the call on it returns.\<close>

lemma process_read_opencl_chunk:
  assumes "snd (process_read_opencl env pa chunk min_prob trans_prior write_events
                  fast_decode read_section) = Inr r"
  shows "length r = length chunk"
    and "r = map Some (successes r) @ replicate (length chunk - length (successes r)) None"
    and "if list_ex (faulted env) chunk then successes r = []
         else map (\<lambda>s. fst (fst s)) (successes r) = filter (usable env) chunk"
    and "subseq (map (\<lambda>s. fst (fst s)) (successes r)) chunk"
    and "list_all (usable env) chunk \<Longrightarrow> map (map_option (\<lambda>s. fst (fst s))) r = map Some chunk"
proof -
  note n = process_read_opencl_narrowed [OF assms]
  show "length r = length chunk" by (rule n(1))
  show r: "r = map Some (successes r) @ replicate (length chunk - length (successes r)) None"
    by (rule n(2))
  show c: "if list_ex (faulted env) chunk then successes r = []
           else map (\<lambda>s. fst (fst s)) (successes r) = filter (usable env) chunk"
    using n(3,4) by simp
  show "subseq (map (\<lambda>s. fst (fst s)) (successes r)) chunk"
    using c by (cases "list_ex (faulted env) chunk") simp_all
  assume all: "list_all (usable env) chunk"
  then have "\<not> list_ex (faulted env) chunk"
    by (auto simp: list_all_iff list_ex_iff dest: usable_not_faulted)
  with c all have names: "map (\<lambda>s. fst (fst s)) (successes r) = chunk"
    by (simp add: list_all_iff)
  then have "length (successes r) = length chunk" by (metis length_map)
  with r have "r = map Some (successes r)" by simp
  then have "map (map_option (\<lambda>s. fst (fst s))) r
               = map (map_option (\<lambda>s. fst (fst s))) (map Some (successes r))"
    by simp
  also have "\<dots> = map Some (map (\<lambda>s. fst (fst s)) (successes r))" by (simp add: comp_def)
  also have "\<dots> = map Some chunk" by (simp only: names)
  finally show "map (map_option (\<lambda>s. fst (fst s))) r = map Some chunk" .
qed

lemma subseq_concat:
  "list_all2 (\<lambda>xs ys. subseq xs ys) xss yss \<Longrightarrow> subseq (concat xss) (concat yss)"
  by (induction rule: list_all2_induct) (simp_all add: list_emb_append_mono)

lemma successes_concat: "successes (concat rss) = concat (map successes rss)"
  by (induction rss) simp_all

lemma concat_eq_of_list_all2:
  "list_all2 (\<lambda>x y. f x = g y) xs ys \<Longrightarrow> concat (map f xs) = concat (map g ys)"
  by (induction rule: list_all2_induct) simp_all

lemma length_concat_of_list_all2:
  "list_all2 (\<lambda>x y. length x = length y) xs ys \<Longrightarrow> length (concat xs) = length (concat ys)"
  by (induction rule: list_all2_induct) simp_all

text \<open>
  C7 (as amended). For a positive capacity the chunks, one after the other, are the
  input. The stream of the single device ends without an exception exactly when the
  call on every chunk returns, and it is then the results of the chunks one after the
  other, in the order of the chunks: for a chunk on which feature extraction raises
  or keeps no read these are markers \<^verbatim>\<open>None\<close> only, for any other chunk they are what
  the steps of the batch give for the reads kept (\<open>batch_item\<close>), followed by the
  markers of the chunk. Such a stream has one result for each read. The results of a
  chunk that are not \<^verbatim>\<open>None\<close> are those of its reads that feature extraction kept, in
  the order of the input (none when extraction raised on the chunk), and the markers
  of the chunk follow them; so the results that are not \<^verbatim>\<open>None\<close> come in the order of
  the input over the whole stream, and they are those of all the reads kept when
  extraction raises on no read. The result at a position belongs to the read at that
  position when feature extraction keeps every read.
\<close>

theorem single_device_mapper_order:
  assumes "0 < n_files"
  shows "concat (group_by_list fast5_files n_files) = fast5_files
   \<and> (\<forall>rs. snd (single_device_mapper env pa n_files write_events fast_decode read_section
                  fast5_files) = (rs, None) \<longleftrightarrow>
         (\<exists>rss. rs = concat rss
            \<and> list_all2
                 (\<lambda>chunk r.
                    case make_basecall_input_multi (extract_features env) chunk of
                      Inl e \<Rightarrow> r = replicate (length chunk) None
                    | Inr items \<Rightarrow>
                        if items = [] then r = replicate (length chunk) None
                        else (\<exists>mw succ. opencl_setup env pa = Inr mw
                                \<and> map_exn (batch_item env mw (1 / 100000) None write_events
                                             fast_decode read_section (length items)) items
                                    = Inr succ
                                \<and> r = map Some succ
                                        @ replicate (length chunk - length items) None))
                 (group_by_list fast5_files n_files) rss))
   \<and> (\<forall>rs. snd (single_device_mapper env pa n_files write_events fast_decode read_section
                  fast5_files) = (rs, None) \<longrightarrow>
         length rs = length fast5_files
         \<and> (\<exists>rss. rs = concat rss
               \<and> list_all2
                    (\<lambda>chunk r.
                       length r = length chunk
                       \<and> r = map Some (successes r)
                              @ replicate (length chunk - length (successes r)) None
                       \<and> (if list_ex (faulted env) chunk then successes r = []
                          else map (\<lambda>s. fst (fst s)) (successes r) = filter (usable env) chunk))
                    (group_by_list fast5_files n_files) rss)
         \<and> subseq (map (\<lambda>s. fst (fst s)) (successes rs)) fast5_files
         \<and> (\<not> list_ex (faulted env) fast5_files \<longrightarrow>
              map (\<lambda>s. fst (fst s)) (successes rs) = filter (usable env) fast5_files)
         \<and> (list_all (usable env) fast5_files \<longrightarrow>
              map (map_option (\<lambda>s. fst (fst s))) rs = map Some fast5_files))"
proof (intro conjI allI impI)
  let ?W = "\<lambda>chunk. process_read_opencl env pa chunk (1 / 100000) None write_events
                      fast_decode read_section"
  let ?cs = "group_by_list fast5_files n_files"
  let ?name = "\<lambda>s :: work_result. fst (fst s)"
  show files: "concat ?cs = fast5_files" using assms by (rule concat_group_by_list)
  have fin: "\<And>rs. snd (single_device_mapper env pa n_files write_events fast_decode read_section
                  fast5_files) = (rs, None) \<longleftrightarrow>
               (\<exists>rss. list_all2 (\<lambda>c r. snd (?W c) = Inr r) ?cs rss \<and> rs = concat rss)"
    unfolding single_device_mapper_def by (rule chain_imap_finished_iff)
  {
    fix rs
    show "snd (single_device_mapper env pa n_files write_events fast_decode read_section
                  fast5_files) = (rs, None) \<longleftrightarrow>
         (\<exists>rss. rs = concat rss
            \<and> list_all2
                 (\<lambda>chunk r.
                    case make_basecall_input_multi (extract_features env) chunk of
                      Inl e \<Rightarrow> r = replicate (length chunk) None
                    | Inr items \<Rightarrow>
                        if items = [] then r = replicate (length chunk) None
                        else (\<exists>mw succ. opencl_setup env pa = Inr mw
                                \<and> map_exn (batch_item env mw (1 / 100000) None write_events
                                             fast_decode read_section (length items)) items
                                    = Inr succ
                                \<and> r = map Some succ
                                        @ replicate (length chunk - length items) None))
                 ?cs rss)"
      unfolding fin process_read_opencl_result by (rule ex_cong1) (rule conj_commute)
  }
  {
    fix rs
    assume "snd (single_device_mapper env pa n_files write_events fast_decode read_section
                  fast5_files) = (rs, None)"
    then obtain rss where a: "list_all2 (\<lambda>c r. snd (?W c) = Inr r) ?cs rss"
      and rs: "rs = concat rss"
      unfolding fin by blast
    have shape: "list_all2
                    (\<lambda>chunk r.
                       length r = length chunk
                       \<and> r = map Some (successes r)
                              @ replicate (length chunk - length (successes r)) None
                       \<and> (if list_ex (faulted env) chunk then successes r = []
                          else map ?name (successes r) = filter (usable env) chunk))
                    ?cs rss"
      using a
    proof (rule list_all2_mono)
      fix c r
      assume w: "snd (?W c) = Inr r"
      from process_read_opencl_chunk(1-3) [OF w]
      show "length r = length c
              \<and> r = map Some (successes r) @ replicate (length c - length (successes r)) None
              \<and> (if list_ex (faulted env) c then successes r = []
                 else map ?name (successes r) = filter (usable env) c)"
        by (intro conjI)
    qed
    have "list_all2 (\<lambda>r c. length r = length c) rss ?cs"
      using a unfolding list_all2_conv_all_nth by (auto intro: process_read_opencl_chunk(1))
    then have "length (concat rss) = length (concat ?cs)"
      by (rule length_concat_of_list_all2)
    then show len: "length rs = length fast5_files" by (simp add: rs files)
    from rs shape show "\<exists>rss. rs = concat rss
               \<and> list_all2
                    (\<lambda>chunk r.
                       length r = length chunk
                       \<and> r = map Some (successes r)
                              @ replicate (length chunk - length (successes r)) None
                       \<and> (if list_ex (faulted env) chunk then successes r = []
                          else map ?name (successes r) = filter (usable env) chunk))
                    ?cs rss"
      by (intro exI [of _ rss] conjI)
    have "list_all2 (\<lambda>r c. subseq (map ?name (successes r)) c) rss ?cs"
      using a unfolding list_all2_conv_all_nth by (auto intro: process_read_opencl_chunk(4))
    then have "list_all2 (\<lambda>xs ys. subseq xs ys) (map (\<lambda>r. map ?name (successes r)) rss) ?cs"
      by (simp add: list_all2_map1)
    then have "subseq (concat (map (\<lambda>r. map ?name (successes r)) rss)) (concat ?cs)"
      by (rule subseq_concat)
    then show "subseq (map ?name (successes rs)) fast5_files"
      by (simp add: rs files successes_concat map_concat comp_def)
    {
      assume nf: "\<not> list_ex (faulted env) fast5_files"
      have "list_all2 (\<lambda>r c. map ?name (successes r) = filter (usable env) c) rss ?cs"
        unfolding list_all2_conv_all_nth
      proof (intro conjI allI impI)
        show "length rss = length ?cs" using a by (simp add: list_all2_lengthD)
      next
        fix i
        assume i: "i < length rss"
        then have i': "i < length ?cs" using a by (simp add: list_all2_lengthD)
        then have w: "snd (?W (?cs ! i)) = Inr (rss ! i)"
          using a by (simp add: list_all2_conv_all_nth)
        from i' have "?cs ! i \<in> set ?cs" by (rule nth_mem)
        then have "set (?cs ! i) \<subseteq> set (concat ?cs)" by auto
        with nf have "\<not> list_ex (faulted env) (?cs ! i)"
          by (auto simp: files list_ex_iff)
        with process_read_opencl_chunk(3) [OF w]
        show "map ?name (successes (rss ! i)) = filter (usable env) (?cs ! i)" by simp
      qed
      then have "concat (map (\<lambda>r. map ?name (successes r)) rss)
                   = concat (map (filter (usable env)) ?cs)"
        by (rule concat_eq_of_list_all2)
      also have "\<dots> = filter (usable env) (concat ?cs)" by (simp add: filter_concat)
      finally show "map ?name (successes rs) = filter (usable env) fast5_files"
        by (simp add: rs files successes_concat map_concat comp_def)
    }
    {
      assume all: "list_all (usable env) fast5_files"
      have "list_all2 (\<lambda>r c. map (map_option ?name) r = map Some c) rss ?cs"
        unfolding list_all2_conv_all_nth
      proof (intro conjI allI impI)
        show "length rss = length ?cs" using a by (simp add: list_all2_lengthD)
      next
        fix i
        assume i: "i < length rss"
        then have i': "i < length ?cs" using a by (simp add: list_all2_lengthD)
        then have w: "snd (?W (?cs ! i)) = Inr (rss ! i)"
          using a by (simp add: list_all2_conv_all_nth)
        from i' have "?cs ! i \<in> set ?cs" by (rule nth_mem)
        then have "set (?cs ! i) \<subseteq> set (concat ?cs)" by auto
        with all have "list_all (usable env) (?cs ! i)" by (auto simp: files list_all_iff)
        with w show "map (map_option ?name) (rss ! i) = map Some (?cs ! i)"
          by (rule process_read_opencl_chunk(5))
      qed
      then have "concat (map (map (map_option ?name)) rss) = concat (map (map Some) ?cs)"
        by (rule concat_eq_of_list_all2)
      then have "map (map_option ?name) (concat rss) = map Some (concat ?cs)"
        by (simp add: map_concat)
      then show "map (map_option ?name) rs = map Some fast5_files" by (simp add: rs files)
    }
  }
qed

lemma single_device_mapper_example_3:
  "single_device_mapper example_env example_pa 3 False True ''template'' [''A'', ''B'', ''C'']
     = ([], [Some ((''A'', ''AAA'', 0, 1), 3 / 2, 3), Some ((''C'', ''AAA'', 0, 1), 3 / 2, 3), None],
        None)"
proof -
  have g: "group_by_list [''A'', ''B'', ''C''] 3 = [[''A'', ''B'', ''C'']]"
    by (simp add: group_by_list.simps)
  show ?thesis
    unfolding single_device_mapper_def g
    by (simp add: process_read_opencl_def example_env_def decode_kmers_opencl_def
          clean_post_example kmer_path_of_def)
qed

lemma single_device_mapper_example_2:
  "single_device_mapper example_env example_pa 2 False True ''template'' [''A'', ''C'', ''D'']
     = ([], [Some ((''A'', ''AAA'', 0, 1), 3 / 2, 3), Some ((''C'', ''AAA'', 0, 1), 3 / 2, 3),
             Some ((''D'', ''AAA'', 0, 1), 3, 6)],
        None)"
proof -
  have g: "group_by_list [''A'', ''C'', ''D''] 2 = [[''A'', ''C''], [''D'']]"
    by (simp add: group_by_list.simps)
  show ?thesis
    unfolding single_device_mapper_def g
    by (simp add: process_read_opencl_def example_env_def decode_kmers_opencl_def
          clean_post_example kmer_path_of_def)
qed

text \<open>
  C7, in the small run. The reads \<open>A\<close>, \<open>B\<close>, \<open>C\<close> in one chunk of three: the stream is the
  results of \<open>A\<close> and \<open>C\<close> and one marker; it has three results, and those that are not
  \<^verbatim>\<open>None\<close> are those of the two reads kept, in their order. The reads \<open>A\<close>, \<open>C\<close>, \<open>D\<close>, all
  usable, in chunks of two: the result at each position is that of the read at that
  position.
\<close>

theorem single_device_mapper_order_witness:
  "snd (single_device_mapper example_env example_pa 3 False True ''template'' [''A'', ''B'', ''C''])
     = ([Some ((''A'', ''AAA'', 0, 1), 3 / 2, 3), Some ((''C'', ''AAA'', 0, 1), 3 / 2, 3), None],
        None)
   \<and> length [Some ((''A'', ''AAA'', 0 :: real, 1 :: nat), 3 / 2 :: real, 3 :: real),
             Some ((''C'', ''AAA'', 0, 1), 3 / 2, 3), None] = length [''A'', ''B'', ''C'']
   \<and> map (\<lambda>s. fst (fst s))
        (successes [Some ((''A'', ''AAA'', 0 :: real, 1 :: nat), 3 / 2 :: real, 3 :: real),
                    Some ((''C'', ''AAA'', 0, 1), 3 / 2, 3), None])
       = filter (usable example_env) [''A'', ''B'', ''C'']
   \<and> snd (single_device_mapper example_env example_pa 2 False True ''template''
             [''A'', ''C'', ''D''])
       = ([Some ((''A'', ''AAA'', 0, 1), 3 / 2, 3), Some ((''C'', ''AAA'', 0, 1), 3 / 2, 3),
           Some ((''D'', ''AAA'', 0, 1), 3, 6)], None)
   \<and> map (map_option (\<lambda>s. fst (fst s)))
        [Some ((''A'', ''AAA'', 0 :: real, 1 :: nat), 3 / 2 :: real, 3 :: real),
         Some ((''C'', ''AAA'', 0, 1), 3 / 2, 3), Some ((''D'', ''AAA'', 0, 1), 3, 6)]
       = map Some [''A'', ''C'', ''D'']"
proof -
  have e3: "snd (single_device_mapper example_env example_pa 3 False True ''template''
                   [''A'', ''B'', ''C''])
     = ([Some ((''A'', ''AAA'', 0, 1), 3 / 2, 3), Some ((''C'', ''AAA'', 0, 1), 3 / 2, 3), None],
        None)"
    by (simp add: single_device_mapper_example_3)
  have e2: "snd (single_device_mapper example_env example_pa 2 False True ''template''
             [''A'', ''C'', ''D''])
       = ([Some ((''A'', ''AAA'', 0, 1), 3 / 2, 3), Some ((''C'', ''AAA'', 0, 1), 3 / 2, 3),
           Some ((''D'', ''AAA'', 0, 1), 3, 6)], None)"
    by (simp add: single_device_mapper_example_2)
  have u: "list_all (usable example_env) [''A'', ''C'', ''D'']"
    by (simp add: usable_def example_env_def)
  have p3: "(0 :: int) < 3" and p2: "(0 :: int) < 2" by simp_all
  from single_device_mapper_order [OF p3, of "[''A'', ''B'', ''C'']" example_env example_pa
         False True "''template''"] e3 example_env_no_fault [of "[''A'', ''B'', ''C'']"]
  have a: "length [Some ((''A'', ''AAA'', 0 :: real, 1 :: nat), 3 / 2 :: real, 3 :: real),
                   Some ((''C'', ''AAA'', 0, 1), 3 / 2, 3), None] = length [''A'', ''B'', ''C'']"
    and b: "map (\<lambda>s. fst (fst s))
        (successes [Some ((''A'', ''AAA'', 0 :: real, 1 :: nat), 3 / 2 :: real, 3 :: real),
                    Some ((''C'', ''AAA'', 0, 1), 3 / 2, 3), None])
       = filter (usable example_env) [''A'', ''B'', ''C'']"
    by blast+
  from single_device_mapper_order [OF p2, of "[''A'', ''C'', ''D'']" example_env example_pa
         False True "''template''"] e2 u
  have c: "map (map_option (\<lambda>s. fst (fst s)))
        [Some ((''A'', ''AAA'', 0 :: real, 1 :: nat), 3 / 2 :: real, 3 :: real),
         Some ((''C'', ''AAA'', 0, 1), 3 / 2, 3), Some ((''D'', ''AAA'', 0, 1), 3, 6)]
       = map Some [''A'', ''C'', ''D'']"
    by blast
  show ?thesis by (intro conjI e3 a b e2 c)
qed

text \<open>
  C7 as it is stated fails: the reads \<open>A\<close>, \<open>B\<close>, \<open>C\<close> in one chunk of three give a stream
  whose position 1 holds the result of the read \<open>C\<close>, while the read at position 1 of
  the input is \<open>B\<close>.
\<close>

theorem single_device_mapper_position_counterexample:
  "single_device_mapper example_env example_pa 3 False True ''template'' [''A'', ''B'', ''C'']
     = ([], [Some ((''A'', ''AAA'', 0, 1), 3 / 2, 3), Some ((''C'', ''AAA'', 0, 1), 3 / 2, 3), None],
        None)
   \<and> [''A'', ''B'', ''C''] ! 1 = ''B''
   \<and> map_option (\<lambda>s. fst (fst s))
        ([Some ((''A'', ''AAA'', 0 :: real, 1 :: nat), 3 / 2 :: real, 3 :: real),
          Some ((''C'', ''AAA'', 0, 1), 3 / 2, 3), None] ! 1) = Some ''C''"
  by (simp add: single_device_mapper_example_3)

end
